theory Spec2Isabelle
  imports Main
begin

section \<open>Python values and the operations the program applies to them\<close>

text \<open>
  The program handles the JSON documents of the remote service as Python values:
  \<^verbatim>\<open>None\<close>, booleans, numbers, strings, lists and dictionaries. A dictionary keeps
  its items in insertion order, and the program iterates over them, so a dictionary is an
  association list; a lookup takes the first entry of a key (a Python dictionary has one
  entry per key). Numbers are only carried through and tested for truth, never computed
  with: \<open>JInt\<close> stands for them. A string is a list of characters; it is compared,
  searched for and split at an ASCII character, and the two methods of Python's
  \<^verbatim>\<open>str\<close> that depend on the character set, \<^verbatim>\<open>strip\<close> and \<^verbatim>\<open>lower\<close>, are
  parameters of the functions that call them.
\<close>

datatype json =
    JNull
  | JBool bool
  | JInt int
  | JStr string
  | JArr "json list"
  | JObj "(string \<times> json) list"

text \<open>
  The exceptions the modelled code can raise: \<^verbatim>\<open>x.get(...)\<close> and \<^verbatim>\<open>x.items()\<close> on a
  value that is not a dictionary give \<^verbatim>\<open>AttributeError\<close>; iterating over a value that
  is not iterable, joining values that are not strings and
  \<^verbatim>\<open>datetime.fromisoformat\<close> of a value that is not a string give \<^verbatim>\<open>TypeError\<close>;
  the client raises \<^verbatim>\<open>NotionAPIError(message, status_code)\<close>.
\<close>

datatype py_error =
    AttributeError
  | TypeError
  | NotionAPIError string int

text \<open>Python's truth value of an object, as \<^verbatim>\<open>if x:\<close> tests it.\<close>

fun truthy :: "json \<Rightarrow> bool" where
  "truthy JNull = False"
| "truthy (JBool b) = b"
| "truthy (JInt n) = (n \<noteq> 0)"
| "truthy (JStr s) = (s \<noteq> [])"
| "truthy (JArr xs) = (xs \<noteq> [])"
| "truthy (JObj kvs) = (kvs \<noteq> [])"

text \<open>\<^verbatim>\<open>d.get(k, default)\<close>; only a dictionary has the method.\<close>

fun py_get :: "json \<Rightarrow> string \<Rightarrow> json \<Rightarrow> py_error + json" where
  "py_get (JObj kvs) k d = Inr (case map_of kvs k of None \<Rightarrow> d | Some v \<Rightarrow> v)"
| "py_get _ k d = Inl AttributeError"

text \<open>\<^verbatim>\<open>d.items()\<close>.\<close>

fun py_items :: "json \<Rightarrow> py_error + (string \<times> json) list" where
  "py_items (JObj kvs) = Inr kvs"
| "py_items _ = Inl AttributeError"

text \<open>
  \<^verbatim>\<open>for x in v\<close>: a list gives its elements, a dictionary its keys, a string its
  characters (each a string of length one); nothing else is iterable.
\<close>

fun py_iter :: "json \<Rightarrow> py_error + json list" where
  "py_iter (JArr xs) = Inr xs"
| "py_iter (JObj kvs) = Inr (map (\<lambda>kv. JStr (fst kv)) kvs)"
| "py_iter (JStr s) = Inr (map (\<lambda>c. JStr [c]) s)"
| "py_iter _ = Inl TypeError"

text \<open>
  A comprehension \<^verbatim>\<open>[f(x) for x in xs]\<close> whose body can raise: the elements are
  evaluated in order and the first exception ends the evaluation.
\<close>

fun mapE :: "('a \<Rightarrow> py_error + 'b) \<Rightarrow> 'a list \<Rightarrow> py_error + 'b list" where
  "mapE f [] = Inr []"
| "mapE f (x # xs) =
     (case f x of
        Inl e \<Rightarrow> Inl e
      | Inr y \<Rightarrow> (case mapE f xs of Inl e \<Rightarrow> Inl e | Inr ys \<Rightarrow> Inr (y # ys)))"

text \<open>
  \<^verbatim>\<open>"".join(vs)\<close>: every item must be a string, else \<^verbatim>\<open>TypeError\<close>.
\<close>

fun join_strs :: "json list \<Rightarrow> py_error + string" where
  "join_strs [] = Inr []"
| "join_strs (JStr s # vs) =
     (case join_strs vs of Inl e \<Rightarrow> Inl e | Inr r \<Rightarrow> Inr (s @ r))"
| "join_strs (_ # vs) = Inl TypeError"

section \<open>transform.py: the value normalizer\<close>

text \<open>
  \<^verbatim>\<open>[x.get(key) for x in v]\<close>, the body of the \<^verbatim>\<open>multi_select\<close>,
  \<^verbatim>\<open>relation\<close>, \<^verbatim>\<open>people\<close> and \<^verbatim>\<open>files\<close> branches.
\<close>

definition get_each :: "string \<Rightarrow> json \<Rightarrow> py_error + json" where
  "get_each key v =
     (case py_iter v of
        Inl e \<Rightarrow> Inl e
      | Inr xs \<Rightarrow>
          (case mapE (\<lambda>x. py_get x key JNull) xs of
             Inl e \<Rightarrow> Inl e
           | Inr ys \<Rightarrow> Inr (JArr ys)))"

text \<open>
  \<^verbatim>\<open>"".join(t.get("plain_text", "") for t in v)\<close>, the body of the \<^verbatim>\<open>title\<close> and
  \<^verbatim>\<open>rich_text\<close> branches. \<^verbatim>\<open>join\<close> first collects the generator's items, so
  an exception of \<^verbatim>\<open>get\<close> comes before the type check of the items.
\<close>

definition join_plain_text :: "json \<Rightarrow> py_error + json" where
  "join_plain_text v =
     (case py_iter v of
        Inl e \<Rightarrow> Inl e
      | Inr ts \<Rightarrow>
          (case mapE (\<lambda>t. py_get t ''plain_text'' (JStr [])) ts of
             Inl e \<Rightarrow> Inl e
           | Inr ps \<Rightarrow>
               (case join_strs ps of Inl e \<Rightarrow> Inl e | Inr s \<Rightarrow> Inr (JStr s))))"

text \<open>
  \<^verbatim>\<open>d.get("name") if d else None\<close>, the body of the \<^verbatim>\<open>select\<close> and \<^verbatim>\<open>status\<close>
  branches.
\<close>

definition name_or_none :: "json \<Rightarrow> py_error + json" where
  "name_or_none d = (if truthy d then py_get d ''name'' JNull else Inr JNull)"

text \<open>
  The \<^verbatim>\<open>date\<close> branch. The standard library's
  \<^verbatim>\<open>datetime.fromisoformat(s).isoformat()\<close> is the parameter \<open>fromiso\<close>: \<open>Some\<close> of
  the re-serialized date-time, or \<open>None\<close> where \<^verbatim>\<open>fromisoformat\<close> raises
  \<^verbatim>\<open>ValueError\<close>, which the branch catches. Given a value that is not a string it
  raises \<^verbatim>\<open>TypeError\<close>, which the branch does not catch.
\<close>

definition date_start :: "(string \<Rightarrow> string option) \<Rightarrow> json \<Rightarrow> py_error + json" where
  "date_start fromiso date_data =
     (if truthy date_data then
        (case py_get date_data ''start'' JNull of
           Inl e \<Rightarrow> Inl e
         | Inr start \<Rightarrow>
             if truthy start then
               (case start of
                  JStr s \<Rightarrow> (case fromiso s of Some t \<Rightarrow> Inr (JStr t) | None \<Rightarrow> Inr start)
                | _ \<Rightarrow> Inl TypeError)
             else Inr JNull)
      else Inr JNull)"

lemma py_get_type_size:
  assumes "py_get p ''type'' JNull = Inr (JStr t)"
    and "py_get p ''formula'' (JObj []) = Inr v"
  shows "size v < size p"
proof (cases p)
  case (JObj kvs)
  from assms(1) JObj have u: "map_of kvs ''type'' = Some (JStr t)"
    by (auto split: option.splits)
  show ?thesis
  proof (cases "map_of kvs ''formula''")
    case None
    from u have "kvs \<noteq> []" by auto
    then have "0 < size_list (size_prod (\<lambda>x. 0) size) kvs"
      by (cases kvs) auto
    with assms(2) JObj None show ?thesis by auto
  next
    case (Some w)
    then have "(''formula'', w) \<in> set kvs" by (rule map_of_SomeD)
    then have "size w < size_list (size_prod (\<lambda>x. 0) size) kvs + Suc 0"
      by (induction kvs) auto
    with assms(2) JObj Some show ?thesis by auto
  qed
qed (use assms in simp_all)

text \<open>
  \<^verbatim>\<open>transform_property_value(prop_data)\<close>: the dispatch on the payload's own type
  tag, in the source's order. The \<^verbatim>\<open>formula\<close> branch calls the function on the nested
  value (\<^verbatim>\<open>{}\<close> when the key is missing); an unknown tag returns the payload itself.
\<close>

function transform_property_value ::
  "(string \<Rightarrow> string option) \<Rightarrow> json \<Rightarrow> py_error + json" where
  "transform_property_value fromiso prop_data =
     (case py_get prop_data ''type'' JNull of
        Inl e \<Rightarrow> Inl e
      | Inr prop_type \<Rightarrow>
          if prop_type = JStr ''title'' then
            (case py_get prop_data ''title'' (JArr []) of
               Inl e \<Rightarrow> Inl e | Inr titles \<Rightarrow> join_plain_text titles)
          else if prop_type = JStr ''rich_text'' then
            (case py_get prop_data ''rich_text'' (JArr []) of
               Inl e \<Rightarrow> Inl e | Inr texts \<Rightarrow> join_plain_text texts)
          else if prop_type = JStr ''number'' then py_get prop_data ''number'' JNull
          else if prop_type = JStr ''select'' then
            (case py_get prop_data ''select'' JNull of
               Inl e \<Rightarrow> Inl e | Inr select_data \<Rightarrow> name_or_none select_data)
          else if prop_type = JStr ''multi_select'' then
            (case py_get prop_data ''multi_select'' (JArr []) of
               Inl e \<Rightarrow> Inl e | Inr v \<Rightarrow> get_each ''name'' v)
          else if prop_type = JStr ''status'' then
            (case py_get prop_data ''status'' JNull of
               Inl e \<Rightarrow> Inl e | Inr status_data \<Rightarrow> name_or_none status_data)
          else if prop_type = JStr ''date'' then
            (case py_get prop_data ''date'' JNull of
               Inl e \<Rightarrow> Inl e | Inr date_data \<Rightarrow> date_start fromiso date_data)
          else if prop_type = JStr ''checkbox'' then py_get prop_data ''checkbox'' JNull
          else if prop_type = JStr ''url'' then py_get prop_data ''url'' JNull
          else if prop_type = JStr ''email'' then py_get prop_data ''email'' JNull
          else if prop_type = JStr ''phone_number'' then py_get prop_data ''phone_number'' JNull
          else if prop_type = JStr ''formula'' then
            (case py_get prop_data ''formula'' (JObj []) of
               Inl e \<Rightarrow> Inl e | Inr f \<Rightarrow> transform_property_value fromiso f)
          else if prop_type = JStr ''relation'' then
            (case py_get prop_data ''relation'' (JArr []) of
               Inl e \<Rightarrow> Inl e | Inr v \<Rightarrow> get_each ''id'' v)
          else if prop_type = JStr ''people'' then
            (case py_get prop_data ''people'' (JArr []) of
               Inl e \<Rightarrow> Inl e | Inr v \<Rightarrow> get_each ''id'' v)
          else if prop_type = JStr ''files'' then
            (case py_get prop_data ''files'' (JArr []) of
               Inl e \<Rightarrow> Inl e | Inr v \<Rightarrow> get_each ''name'' v)
          else if prop_type = JStr ''created_time'' then py_get prop_data ''created_time'' JNull
          else if prop_type = JStr ''created_by'' then py_get prop_data ''created_by'' JNull
          else if prop_type = JStr ''last_edited_time'' then
            py_get prop_data ''last_edited_time'' JNull
          else if prop_type = JStr ''last_edited_by'' then
            py_get prop_data ''last_edited_by'' JNull
          else Inr prop_data)"
  by pat_completeness auto
termination
  by (relation "measure (\<lambda>(fromiso, p). size p)") (auto intro: py_get_type_size)

declare transform_property_value.simps [simp del]


text \<open>
  The shape of a field-value payload as the remote service sends it, by its type tag:
  the rich-text runs of a \<^verbatim>\<open>title\<close> or \<^verbatim>\<open>rich_text\<close> are dictionaries whose
  \<^verbatim>\<open>plain_text\<close> is a string; a \<^verbatim>\<open>select\<close> or \<^verbatim>\<open>status\<close> is
  \<^verbatim>\<open>null\<close> or a dictionary; a \<^verbatim>\<open>multi_select\<close>, \<^verbatim>\<open>relation\<close>,
  \<^verbatim>\<open>people\<close> or \<^verbatim>\<open>files\<close> is a list of dictionaries; a \<^verbatim>\<open>date\<close> is
  \<^verbatim>\<open>null\<close> or a dictionary whose \<^verbatim>\<open>start\<close> is \<^verbatim>\<open>null\<close> or a string; a
  \<^verbatim>\<open>formula\<close> is a dictionary that is a payload itself. A key may be missing. Any
  other tag, and a payload without a tag, carries what it likes.
\<close>

fun is_dict :: "json \<Rightarrow> bool" where
  "is_dict (JObj kvs) = True"
| "is_dict _ = False"

fun is_str :: "json \<Rightarrow> bool" where
  "is_str (JStr s) = True"
| "is_str _ = False"

fun rich_text_run :: "json \<Rightarrow> bool" where
  "rich_text_run (JObj kvs) = (case map_of kvs ''plain_text'' of None \<Rightarrow> True | Some v \<Rightarrow> is_str v)"
| "rich_text_run _ = False"

fun wf_date :: "json \<Rightarrow> bool" where
  "wf_date JNull = True"
| "wf_date (JObj kvs) =
     (case map_of kvs ''start'' of None \<Rightarrow> True | Some v \<Rightarrow> v = JNull \<or> is_str v)"
| "wf_date _ = False"

lemma map_of_size:
  "map_of kvs k = Some v \<Longrightarrow> size v < Suc (size_list (size_prod (\<lambda>x. 0) size) kvs)"
proof -
  assume "map_of kvs k = Some v"
  then have "(k, v) \<in> set kvs" by (rule map_of_SomeD)
  then show ?thesis by (induction kvs) auto
qed

function wf_payload :: "json \<Rightarrow> bool" where
  "wf_payload (JObj kvs) =
     (case map_of kvs ''type'' of
        Some (JStr t) \<Rightarrow>
          if t = ''title'' \<or> t = ''rich_text'' then
            (case map_of kvs t of
               None \<Rightarrow> True | Some (JArr ts) \<Rightarrow> list_all rich_text_run ts | Some _ \<Rightarrow> False)
          else if t = ''select'' \<or> t = ''status'' then
            (case map_of kvs t of None \<Rightarrow> True | Some v \<Rightarrow> v = JNull \<or> is_dict v)
          else if t = ''multi_select'' \<or> t = ''relation'' \<or> t = ''people'' \<or> t = ''files'' then
            (case map_of kvs t of
               None \<Rightarrow> True | Some (JArr xs) \<Rightarrow> list_all is_dict xs | Some _ \<Rightarrow> False)
          else if t = ''date'' then
            (case map_of kvs t of None \<Rightarrow> True | Some d \<Rightarrow> wf_date d)
          else if t = ''formula'' then
            (case map_of kvs t of None \<Rightarrow> True | Some f \<Rightarrow> wf_payload f)
          else True
      | _ \<Rightarrow> True)"
| "wf_payload JNull = False"
| "wf_payload (JBool b) = False"
| "wf_payload (JInt n) = False"
| "wf_payload (JStr s) = False"
| "wf_payload (JArr xs) = False"
  by pat_completeness auto
termination
  by (relation "measure size") (auto dest: map_of_size)

declare wf_payload.simps(1) [simp del]

section \<open>schema.py: the schema model\<close>

text \<open>
  A \<^verbatim>\<open>DatabaseSchema\<close> object: the identifier, the raw schema document, and the two
  cache fields \<^verbatim>\<open>_status_property_name\<close> (initially \<^verbatim>\<open>None\<close>) and
  \<^verbatim>\<open>_tag_property_names\<close> (initially \<^verbatim>\<open>[]\<close>). A method that assigns a cache
  field returns the object as it is afterwards, together with its result or exception.
\<close>

record DatabaseSchema =
  database_id :: string
  schema_data :: json
  cache_status_property_name :: "string option"
  cache_tag_property_names :: "string list"

definition DatabaseSchema_init :: "string \<Rightarrow> json \<Rightarrow> DatabaseSchema" where
  "DatabaseSchema_init db data =
     \<lparr>database_id = db, schema_data = data,
      cache_status_property_name = None, cache_tag_property_names = []\<rparr>"

text \<open>The property \<^verbatim>\<open>properties\<close>: \<^verbatim>\<open>self.schema_data.get("properties", {})\<close>.\<close>

definition properties :: "DatabaseSchema \<Rightarrow> py_error + json" where
  "properties s = py_get (schema_data s) ''properties'' (JObj [])"

text \<open>
  The loop of \<^verbatim>\<open>get_status_property_name\<close>: the name of the first item whose
  definition has the type \<^verbatim>\<open>status\<close>.
\<close>

fun scan_status :: "(string \<times> json) list \<Rightarrow> py_error + string option" where
  "scan_status [] = Inr None"
| "scan_status ((prop_name, prop_def) # rest) =
     (case py_get prop_def ''type'' JNull of
        Inl e \<Rightarrow> Inl e
      | Inr t \<Rightarrow> if t = JStr ''status'' then Inr (Some prop_name) else scan_status rest)"

text \<open>
  \<^verbatim>\<open>get_status_property_name\<close>. The guard is \<^verbatim>\<open>is not None\<close>; the field is
  assigned only where the loop finds a status property, and the final \<^verbatim>\<open>return None\<close>
  assigns nothing.
\<close>

definition get_status_property_name ::
  "DatabaseSchema \<Rightarrow> (py_error + string option) \<times> DatabaseSchema" where
  "get_status_property_name s =
     (case cache_status_property_name s of
        Some n \<Rightarrow> (Inr (Some n), s)
      | None \<Rightarrow>
          (case properties s of
             Inl e \<Rightarrow> (Inl e, s)
           | Inr ps \<Rightarrow>
               (case py_items ps of
                  Inl e \<Rightarrow> (Inl e, s)
                | Inr items \<Rightarrow>
                    (case scan_status items of
                       Inl e \<Rightarrow> (Inl e, s)
                     | Inr None \<Rightarrow> (Inr None, s)
                     | Inr (Some n) \<Rightarrow>
                         (Inr (Some n), s\<lparr>cache_status_property_name := Some n\<rparr>)))))"

text \<open>
  The loop of \<^verbatim>\<open>get_tag_property_names\<close>: the names of all items whose definition
  has the type \<^verbatim>\<open>multi_select\<close>, in the dictionary's order.
\<close>

fun scan_tags :: "(string \<times> json) list \<Rightarrow> py_error + string list" where
  "scan_tags [] = Inr []"
| "scan_tags ((prop_name, prop_def) # rest) =
     (case py_get prop_def ''type'' JNull of
        Inl e \<Rightarrow> Inl e
      | Inr t \<Rightarrow>
          (case scan_tags rest of
             Inl e \<Rightarrow> Inl e
           | Inr names \<Rightarrow>
               Inr (if t = JStr ''multi_select'' then prop_name # names else names)))"

text \<open>
  \<^verbatim>\<open>get_tag_property_names\<close>. The guard \<^verbatim>\<open>if self._tag_property_names:\<close> is the
  truth value of the list: an empty list does not pass it.
\<close>

definition get_tag_property_names ::
  "DatabaseSchema \<Rightarrow> (py_error + string list) \<times> DatabaseSchema" where
  "get_tag_property_names s =
     (if cache_tag_property_names s \<noteq> [] then (Inr (cache_tag_property_names s), s)
      else
        (case properties s of
           Inl e \<Rightarrow> (Inl e, s)
         | Inr ps \<Rightarrow>
             (case py_items ps of
                Inl e \<Rightarrow> (Inl e, s)
              | Inr items \<Rightarrow>
                  (case scan_tags items of
                     Inl e \<Rightarrow> (Inl e, s)
                   | Inr tag_names \<Rightarrow>
                       (Inr tag_names, s\<lparr>cache_tag_property_names := tag_names\<rparr>)))))"

text \<open>
  \<^verbatim>\<open>[opt.get("name", "") for opt in options if opt.get("name")]\<close>: the condition is
  evaluated first, then the element.
\<close>

fun option_names :: "json list \<Rightarrow> py_error + json list" where
  "option_names [] = Inr []"
| "option_names (opt # rest) =
     (case py_get opt ''name'' JNull of
        Inl e \<Rightarrow> Inl e
      | Inr c \<Rightarrow>
          if truthy c then
            (case py_get opt ''name'' (JStr []) of
               Inl e \<Rightarrow> Inl e
             | Inr n \<Rightarrow>
                 (case option_names rest of Inl e \<Rightarrow> Inl e | Inr ns \<Rightarrow> Inr (n # ns)))
          else option_names rest)"

text \<open>
  The last two lines of \<^verbatim>\<open>get_status_options\<close> (with \<open>kind\<close> \<^verbatim>\<open>status\<close>) and of
  \<^verbatim>\<open>get_tag_options\<close> (with \<open>kind\<close> \<^verbatim>\<open>multi_select\<close>):
  \<^verbatim>\<open>prop_def.get(kind, {}).get("options", [])\<close> and the comprehension over it.
\<close>

definition declared_option_names :: "json \<Rightarrow> string \<Rightarrow> py_error + json list" where
  "declared_option_names prop_def kind =
     (case py_get prop_def kind (JObj []) of
        Inl e \<Rightarrow> Inl e
      | Inr k \<Rightarrow>
          (case py_get k ''options'' (JArr []) of
             Inl e \<Rightarrow> Inl e
           | Inr options \<Rightarrow>
               (case py_iter options of Inl e \<Rightarrow> Inl e | Inr opts \<Rightarrow> option_names opts)))"

text \<open>
  \<^verbatim>\<open>get_status_options\<close>. \<^verbatim>\<open>if not status_prop\<close> holds for \<^verbatim>\<open>None\<close> and for the
  empty name.
\<close>

definition get_status_options ::
  "DatabaseSchema \<Rightarrow> (py_error + json list) \<times> DatabaseSchema" where
  "get_status_options s =
     (case get_status_property_name s of
        (Inl e, s1) \<Rightarrow> (Inl e, s1)
      | (Inr None, s1) \<Rightarrow> (Inr [], s1)
      | (Inr (Some status_prop), s1) \<Rightarrow>
          if status_prop = [] then (Inr [], s1)
          else
            (case properties s1 of
               Inl e \<Rightarrow> (Inl e, s1)
             | Inr ps \<Rightarrow>
                 (case py_get ps status_prop (JObj []) of
                    Inl e \<Rightarrow> (Inl e, s1)
                  | Inr prop_def \<Rightarrow> (declared_option_names prop_def ''status'', s1))))"

text \<open>\<^verbatim>\<open>get_tag_options(tag_property)\<close>; it assigns no field.\<close>

definition get_tag_options :: "DatabaseSchema \<Rightarrow> string \<Rightarrow> py_error + json list" where
  "get_tag_options s tag_property =
     (case properties s of
        Inl e \<Rightarrow> Inl e
      | Inr ps \<Rightarrow>
          (case py_get ps tag_property (JObj []) of
             Inl e \<Rightarrow> Inl e
           | Inr prop_def \<Rightarrow> declared_option_names prop_def ''multi_select''))"

text \<open>
  \<^verbatim>\<open>find_property_by_name(name)\<close>. Python's \<^verbatim>\<open>str.lower\<close> is the parameter
  \<open>lower\<close>. The result \<^verbatim>\<open>None\<close> is \<open>JNull\<close>.
\<close>

fun find_lower :: "(string \<Rightarrow> string) \<Rightarrow> string \<Rightarrow> (string \<times> json) list \<Rightarrow> json" where
  "find_lower lower name_lower [] = JNull"
| "find_lower lower name_lower ((prop_name, prop_def) # rest) =
     (if lower prop_name = name_lower then prop_def else find_lower lower name_lower rest)"

definition find_property_by_name ::
  "(string \<Rightarrow> string) \<Rightarrow> DatabaseSchema \<Rightarrow> string \<Rightarrow> py_error + json" where
  "find_property_by_name lower s name =
     (case properties s of
        Inl e \<Rightarrow> Inl e
      | Inr ps \<Rightarrow>
          (case py_items ps of
             Inl e \<Rightarrow> Inl e
           | Inr items \<Rightarrow> Inr (find_lower lower (lower name) items)))"

section \<open>schema.py: the schema cache and the remote service\<close>

text \<open>
  The remote service is outside the program. A request is recorded in the list of calls
  made so far, and the client's answer is a parameter: a function of the calls made before
  and of the request's arguments, either the JSON document or the exception
  \<^verbatim>\<open>_request\<close> raises.
\<close>

datatype api_call =
    GetDatabase string
  | UpdatePage string json

record NotionClient =
  get_database :: "api_call list \<Rightarrow> string \<Rightarrow> py_error + json"
  update_page :: "api_call list \<Rightarrow> string \<Rightarrow> json \<Rightarrow> py_error + json"

text \<open>
  The process state: the dictionary \<^verbatim>\<open>_schemas\<close> of the global
  \<^verbatim>\<open>_schema_cache\<close>, and the calls made to the remote service.
\<close>

record world =
  schemas :: "string \<Rightarrow> DatabaseSchema option"
  calls :: "api_call list"

definition SchemaCache_get :: "world \<Rightarrow> string \<Rightarrow> DatabaseSchema option" where
  "SchemaCache_get w db_id = schemas w db_id"

definition SchemaCache_set :: "world \<Rightarrow> string \<Rightarrow> DatabaseSchema \<Rightarrow> world" where
  "SchemaCache_set w db_id schema = w\<lparr>schemas := (schemas w)(db_id \<mapsto> schema)\<rparr>"

definition SchemaCache_clear :: "world \<Rightarrow> world" where
  "SchemaCache_clear w = w\<lparr>schemas := Map.empty\<rparr>"

text \<open>
  \<^verbatim>\<open>get_database_schema(client, database_id)\<close>. A \<^verbatim>\<open>DatabaseSchema\<close> object is
  always true, so \<^verbatim>\<open>if cached:\<close> holds exactly when the cache has an entry.
\<close>

definition get_database_schema ::
  "NotionClient \<Rightarrow> string \<Rightarrow> world \<Rightarrow> (py_error + DatabaseSchema) \<times> world" where
  "get_database_schema client db_id w =
     (case SchemaCache_get w db_id of
        Some cached \<Rightarrow> (Inr cached, w)
      | None \<Rightarrow>
          (let w1 = w\<lparr>calls := calls w @ [GetDatabase db_id]\<rparr> in
           case get_database client (calls w) db_id of
             Inl e \<Rightarrow> (Inl e, w1)
           | Inr data \<Rightarrow>
               (let schema = DatabaseSchema_init db_id data
                in (Inr schema, SchemaCache_set w1 db_id schema))))"

text \<open>
  \<open>resolutions n\<close>: \<open>n\<close> calls of \<^verbatim>\<open>get_database_schema\<close> for one identifier, one
  after the other, with the results in order.
\<close>

fun resolutions ::
  "nat \<Rightarrow> NotionClient \<Rightarrow> string \<Rightarrow> world \<Rightarrow> (py_error + DatabaseSchema) list \<times> world" where
  "resolutions 0 client db_id w = ([], w)"
| "resolutions (Suc n) client db_id w =
     (case get_database_schema client db_id w of
        (r, w1) \<Rightarrow>
          (case resolutions n client db_id w1 of (rs, w2) \<Rightarrow> (r # rs, w2)))"

section \<open>cli.py: the status update\<close>

text \<open>
  What a command prints through \<^verbatim>\<open>output_json\<close>: \<open>Success data\<close> for
  \<^verbatim>\<open>success=True\<close>, \<open>Failure error\<close> for an error the command reports itself, and
  \<open>Raised e\<close> for the two \<^verbatim>\<open>except\<close> handlers, which print the exception's
  message (and the status code of a \<^verbatim>\<open>NotionAPIError\<close>).
\<close>

datatype outcome =
    Success json
  | Failure json
  | Raised py_error

text \<open>
  The schema object a command works on is the one in the cache, so a cache field a method
  assigns is visible there: the command stores the object back.
\<close>

definition update_status ::
  "NotionClient \<Rightarrow> string \<Rightarrow> string \<Rightarrow> string \<Rightarrow> world \<Rightarrow> outcome \<times> world" where
  "update_status client database item_id status w =
     (case get_database_schema client database w of
        (Inl e, w1) \<Rightarrow> (Raised e, w1)
      | (Inr schema, w1) \<Rightarrow>
          (case get_status_property_name schema of
             (Inl e, schema1) \<Rightarrow> (Raised e, SchemaCache_set w1 database schema1)
           | (Inr status_prop_name, schema1) \<Rightarrow>
               (let w2 = SchemaCache_set w1 database schema1 in
                if status_prop_name = None \<or> status_prop_name = Some [] then
                  (Failure (JObj [(''message'', JStr ''No status property found in database'')]),
                   w2)
                else
                  (case get_status_options schema1 of
                     (Inl e, schema2) \<Rightarrow> (Raised e, SchemaCache_set w2 database schema2)
                   | (Inr status_options, schema2) \<Rightarrow>
                       (let w3 = SchemaCache_set w2 database schema2 in
                        if status_options \<noteq> [] \<and> JStr status \<notin> set status_options then
                          (Failure (JObj
                             [(''message'',
                               JStr (''Invalid status '' @ [CHR 0x27] @ status @ [CHR 0x27])),
                              (''available_options'', JArr status_options)]),
                           w3)
                        else
                          (let patch = JObj [(the status_prop_name,
                                 JObj [(''status'', JObj [(''name'', JStr status)])])];
                               w4 = w3\<lparr>calls := calls w3 @ [UpdatePage item_id patch]\<rparr>
                           in case update_page client (calls w3) item_id patch of
                                Inl e \<Rightarrow> (Raised e, w4)
                              | Inr page \<Rightarrow>
                                  (Success (JObj
                                     [(''id'', JStr item_id), (''status'', JStr status),
                                      (''property'', JStr (the status_prop_name))]),
                                   w4)))))))"

section \<open>cli.py: the filter of a query\<close>

text \<open>
  \<^verbatim>\<open>s.split(",")\<close>: the pieces between the separators, empty pieces kept; the empty
  string gives one empty piece.
\<close>

fun split_on :: "char \<Rightarrow> string \<Rightarrow> string list" where
  "split_on c [] = [[]]"
| "split_on c (x # xs) =
     (if x = c then [] # split_on c xs
      else (case split_on c xs of [] \<Rightarrow> [[x]] | t # ts \<Rightarrow> (x # t) # ts))"

text \<open>
  \<^verbatim>\<open>prop_name, value = s.split("=", 1)\<close> for a string that contains the separator:
  the text before the first separator and the text after it.
\<close>

definition split_first :: "char \<Rightarrow> string \<Rightarrow> string \<times> string" where
  "split_first c s = (takeWhile (\<lambda>x. x \<noteq> c) s, drop 1 (dropWhile (\<lambda>x. x \<noteq> c) s))"

text \<open>The leaf \<^verbatim>\<open>{"property": name, kind: {op: v}}\<close>.\<close>

definition leaf :: "string \<Rightarrow> string \<Rightarrow> string \<Rightarrow> string \<Rightarrow> json" where
  "leaf name kind op v = JObj [(''property'', JStr name), (kind, JObj [(op, JStr v)])]"

text \<open>
  The block \<^verbatim>\<open>if status:\<close> of \<^verbatim>\<open>query\<close>. An argument that was not given is
  \<open>None\<close>; \<open>filter_obj\<close> is \<open>None\<close> for Python's \<^verbatim>\<open>None\<close>.
\<close>

definition status_branch ::
  "DatabaseSchema \<Rightarrow> string option \<Rightarrow> json option \<Rightarrow> (py_error + json option) \<times> DatabaseSchema"
  where
  "status_branch schema status filter_obj =
     (if status = None \<or> status = Some [] then (Inr filter_obj, schema)
      else
        (case get_status_property_name schema of
           (Inl e, s1) \<Rightarrow> (Inl e, s1)
         | (Inr status_prop_name, s1) \<Rightarrow>
             if status_prop_name = None \<or> status_prop_name = Some [] then (Inr filter_obj, s1)
             else
               (Inr (Some (leaf (the status_prop_name) ''status'' ''equals'' (the status))),
                s1)))"

text \<open>
  The block \<^verbatim>\<open>if tags:\<close>. Python's \<^verbatim>\<open>str.strip\<close> is the parameter \<open>strip\<close>.
\<close>

definition tags_branch ::
  "(string \<Rightarrow> string) \<Rightarrow> DatabaseSchema \<Rightarrow> string option \<Rightarrow> json option \<Rightarrow>
     (py_error + json option) \<times> DatabaseSchema" where
  "tags_branch strip schema tags filter_obj =
     (if tags = None \<or> tags = Some [] then (Inr filter_obj, schema)
      else
        (case get_tag_property_names schema of
           (Inl e, s1) \<Rightarrow> (Inl e, s1)
         | (Inr [], s1) \<Rightarrow> (Inr filter_obj, s1)
         | (Inr (tag_prop_name # other_props), s1) \<Rightarrow>
             (let tag_list = map strip (split_on CHR '','' (the tags)) in
              if length tag_list = 1 then
                (Inr (Some (leaf tag_prop_name ''multi_select'' ''contains'' (tag_list ! 0))), s1)
              else
                (Inr (Some (JObj [(''and'',
                   JArr (map (\<lambda>tag. leaf tag_prop_name ''multi_select'' ''contains'' tag)
                     tag_list))])),
                 s1))))"

text \<open>
  The block \<^verbatim>\<open>if filter:\<close>. The leaf carries the name as the user wrote it (trimmed),
  and \<^verbatim>\<open>if prop_def:\<close> is the truth value of the definition found.
\<close>

definition generic_branch ::
  "(string \<Rightarrow> string) \<Rightarrow> (string \<Rightarrow> string) \<Rightarrow> DatabaseSchema \<Rightarrow> string option \<Rightarrow>
     json option \<Rightarrow> py_error + json option" where
  "generic_branch lower strip schema filter_arg filter_obj =
     (if filter_arg = None \<or> filter_arg = Some [] then Inr filter_obj
      else if CHR ''='' \<notin> set (the filter_arg) then Inr filter_obj
      else
        (let prop_name = strip (fst (split_first CHR ''='' (the filter_arg)));
             v = strip (snd (split_first CHR ''='' (the filter_arg)))
         in case find_property_by_name lower schema prop_name of
              Inl e \<Rightarrow> Inl e
            | Inr prop_def \<Rightarrow>
                if truthy prop_def then
                  (case py_get prop_def ''type'' JNull of
                     Inl e \<Rightarrow> Inl e
                   | Inr prop_type \<Rightarrow>
                       if prop_type = JStr ''status'' then
                         Inr (Some (leaf prop_name ''status'' ''equals'' v))
                       else if prop_type = JStr ''select'' then
                         Inr (Some (leaf prop_name ''select'' ''equals'' v))
                       else if prop_type = JStr ''multi_select'' then
                         Inr (Some (leaf prop_name ''multi_select'' ''contains'' v))
                       else Inr (Some (leaf prop_name ''title'' ''equals'' v)))
                else Inr filter_obj))"

text \<open>
  The filter \<^verbatim>\<open>query\<close> builds: \<^verbatim>\<open>filter_obj = None\<close>, then the three blocks in
  the source's order, each working on what the one before left. An exception ends the
  construction.
\<close>

definition query_filter ::
  "(string \<Rightarrow> string) \<Rightarrow> (string \<Rightarrow> string) \<Rightarrow> DatabaseSchema \<Rightarrow> string option \<Rightarrow>
     string option \<Rightarrow> string option \<Rightarrow> (py_error + json option) \<times> DatabaseSchema" where
  "query_filter lower strip schema status tags filter_arg =
     (case status_branch schema status None of
        (Inl e, s1) \<Rightarrow> (Inl e, s1)
      | (Inr f1, s1) \<Rightarrow>
          (case tags_branch strip s1 tags f1 of
             (Inl e, s2) \<Rightarrow> (Inl e, s2)
           | (Inr f2, s2) \<Rightarrow> (generic_branch lower strip s2 filter_arg f2, s2)))"


section \<open>Example data\<close>

text \<open>
  A schema with a title, a status field whose option list has an option with an empty name
  and one without a name, a multi-select field and a select field; and a schema with a
  title only.
\<close>

definition demo_status_options :: "(string \<times> json) list list" where
  "demo_status_options =
     [[(''name'', JStr ''Todo'')], [(''name'', JStr [])], [(''color'', JStr ''red'')],
      [(''name'', JStr ''Done'')]]"

definition demo_tag_options :: "(string \<times> json) list list" where
  "demo_tag_options = [[(''name'', JStr ''urgent'')], [(''name'', JStr [])]]"

definition demo_properties :: "(string \<times> json) list" where
  "demo_properties =
     [(''Name'', JObj [(''type'', JStr ''title'')]),
      (''Status'', JObj [(''type'', JStr ''status''),
         (''status'', JObj [(''options'', JArr (map JObj demo_status_options))])]),
      (''Tags'', JObj [(''type'', JStr ''multi_select''),
         (''multi_select'', JObj [(''options'', JArr (map JObj demo_tag_options))])]),
      (''Priority'', JObj [(''type'', JStr ''select'')])]"

definition demo_schema :: DatabaseSchema where
  "demo_schema = DatabaseSchema_init ''db'' (JObj [(''properties'', JObj demo_properties)])"

definition plain_schema :: DatabaseSchema where
  "plain_schema =
     DatabaseSchema_init ''db''
       (JObj [(''properties'', JObj [(''Name'', JObj [(''type'', JStr ''title'')])])])"

text \<open>
  A client whose service holds the first schema under the identifier \<^verbatim>\<open>db\<close> and
  accepts every update; a client whose service holds a schema with a status field that
  declares no options; and the state of a process that has made no call yet.
\<close>

definition demo_client :: NotionClient where
  "demo_client =
     \<lparr>get_database = (\<lambda>log db_id.
         if db_id = ''db'' then Inr (JObj [(''properties'', JObj demo_properties)])
         else Inl (NotionAPIError ''Could not find database'' 404)),
      update_page = (\<lambda>log page_id patch. Inr (JObj [(''id'', JStr page_id)]))\<rparr>"

definition no_options_data :: json where
  "no_options_data =
     JObj [(''properties'', JObj
       [(''Status'', JObj [(''type'', JStr ''status''),
          (''status'', JObj [(''options'', JArr [])])])])]"

definition no_options_client :: NotionClient where
  "no_options_client =
     \<lparr>get_database = (\<lambda>log db_id. Inr no_options_data),
      update_page = (\<lambda>log page_id patch. Inr (JObj [(''id'', JStr page_id)]))\<rparr>"

definition fresh_world :: world where
  "fresh_world = \<lparr>schemas = Map.empty, calls = []\<rparr>"

text \<open>
  Python's \<^verbatim>\<open>str.strip\<close> and \<^verbatim>\<open>str.lower\<close> on ASCII strings, for the examples:
  the whitespace characters below 128, and the letters A to Z.
\<close>

definition ascii_space :: "char \<Rightarrow> bool" where
  "ascii_space c = (c \<in> set [CHR '' '', CHR 0x09, CHR 0x0A, CHR 0x0B, CHR 0x0C, CHR 0x0D,
                              CHR 0x1C, CHR 0x1D, CHR 0x1E, CHR 0x1F])"

definition ascii_strip :: "string \<Rightarrow> string" where
  "ascii_strip s = rev (dropWhile ascii_space (rev (dropWhile ascii_space s)))"

definition ascii_lower :: "string \<Rightarrow> string" where
  "ascii_lower s =
     map (\<lambda>c. case map_of (zip ''ABCDEFGHIJKLMNOPQRSTUVWXYZ'' ''abcdefghijklmnopqrstuvwxyz'') c of
                 None \<Rightarrow> c | Some l \<Rightarrow> l) s"

section \<open>Properties of the value normalizer\<close>

lemma mapE_objs:
  "mapE (\<lambda>x. py_get x key d) (map JObj os) =
     Inr (map (\<lambda>ob. case map_of ob key of None \<Rightarrow> d | Some v \<Rightarrow> v) os)"
  by (induction os) simp_all

lemma get_each_objs:
  "get_each key (JArr (map JObj os)) =
     Inr (JArr (map (\<lambda>ob. case map_of ob key of None \<Rightarrow> JNull | Some v \<Rightarrow> v) os))"
  by (simp add: get_each_def mapE_objs)

lemma mapE_plain_text:
  "list_all rich_text_run ts \<Longrightarrow>
     \<exists>ps. mapE (\<lambda>t. py_get t ''plain_text'' (JStr [])) ts = Inr ps \<and> list_all is_str ps"
proof (induction ts)
  case Nil
  then show ?case by simp
next
  case (Cons t ts)
  then obtain ps where ps: "mapE (\<lambda>t. py_get t ''plain_text'' (JStr [])) ts = Inr ps"
      "list_all is_str ps" by auto
  from Cons.prems have "rich_text_run t" by simp
  then obtain kvs where t: "t = JObj kvs" by (cases t) simp_all
  with \<open>rich_text_run t\<close> have "is_str (case map_of kvs ''plain_text'' of None \<Rightarrow> JStr [] | Some v \<Rightarrow> v)"
    by (simp split: option.splits)
  with ps t show ?case by simp
qed

lemma join_strs_total: "list_all is_str ps \<Longrightarrow> \<exists>s. join_strs ps = Inr s"
proof (induction ps)
  case Nil
  then show ?case by simp
next
  case (Cons p ps)
  then obtain s where "join_strs ps = Inr s" by auto
  moreover from Cons.prems obtain x where "p = JStr x" by (cases p) simp_all
  ultimately show ?case by simp
qed

lemma join_plain_text_total:
  assumes "list_all rich_text_run ts"
  shows "\<exists>v. join_plain_text (JArr ts) = Inr v"
proof -
  from mapE_plain_text [OF assms] obtain ps
    where ps: "mapE (\<lambda>t. py_get t ''plain_text'' (JStr [])) ts = Inr ps" "list_all is_str ps"
    by blast
  from join_strs_total [OF ps(2)] obtain s where "join_strs ps = Inr s" ..
  with ps(1) show ?thesis by (simp add: join_plain_text_def)
qed

lemma is_dict_objs: "list_all is_dict xs \<Longrightarrow> \<exists>os. xs = map JObj os"
proof (induction xs)
  case Nil
  then show ?case by simp
next
  case (Cons x xs)
  then obtain os where "xs = map JObj os" by auto
  moreover from Cons.prems obtain ob where "x = JObj ob" by (cases x) simp_all
  ultimately have "x # xs = map JObj (ob # os)" by simp
  then show ?case by (rule exI)
qed

lemma get_each_total:
  assumes "list_all is_dict xs"
  shows "\<exists>v. get_each key (JArr xs) = Inr v"
proof -
  from is_dict_objs [OF assms] obtain os where "xs = map JObj os" ..
  then show ?thesis by (simp add: get_each_objs)
qed

lemma name_or_none_total: "v = JNull \<or> is_dict v \<Longrightarrow> \<exists>r. name_or_none v = Inr r"
  by (cases v) (simp_all add: name_or_none_def)

lemma date_start_total: "wf_date d \<Longrightarrow> \<exists>r. date_start fromiso d = Inr r"
proof (cases d)
  case (JObj kvs)
  assume "wf_date d"
  with JObj show ?thesis
  proof (cases "map_of kvs ''start''")
    case None
    with JObj show ?thesis by (simp add: date_start_def)
  next
    case (Some v)
    with JObj \<open>wf_date d\<close> have "v = JNull \<or> is_str v" by simp
    with JObj Some show ?thesis
      by (cases v) (simp_all add: date_start_def split: option.splits)
  qed
qed (simp_all add: date_start_def)


lemma transform_title:
  "map_of kvs ''type'' = Some (JStr ''title'') \<Longrightarrow>
     transform_property_value fromiso (JObj kvs) = join_plain_text (case map_of kvs ''title'' of None \<Rightarrow> JArr [] | Some v \<Rightarrow> v)"
  by (subst transform_property_value.simps) simp

lemma transform_rich_text:
  "map_of kvs ''type'' = Some (JStr ''rich_text'') \<Longrightarrow>
     transform_property_value fromiso (JObj kvs) = join_plain_text (case map_of kvs ''rich_text'' of None \<Rightarrow> JArr [] | Some v \<Rightarrow> v)"
  by (subst transform_property_value.simps) simp

lemma transform_select:
  "map_of kvs ''type'' = Some (JStr ''select'') \<Longrightarrow>
     transform_property_value fromiso (JObj kvs) = name_or_none (case map_of kvs ''select'' of None \<Rightarrow> JNull | Some v \<Rightarrow> v)"
  by (subst transform_property_value.simps) simp

lemma transform_status:
  "map_of kvs ''type'' = Some (JStr ''status'') \<Longrightarrow>
     transform_property_value fromiso (JObj kvs) = name_or_none (case map_of kvs ''status'' of None \<Rightarrow> JNull | Some v \<Rightarrow> v)"
  by (subst transform_property_value.simps) simp

lemma transform_multi_select:
  "map_of kvs ''type'' = Some (JStr ''multi_select'') \<Longrightarrow>
     transform_property_value fromiso (JObj kvs) = get_each ''name'' (case map_of kvs ''multi_select'' of None \<Rightarrow> JArr [] | Some v \<Rightarrow> v)"
  by (subst transform_property_value.simps) simp

lemma transform_relation:
  "map_of kvs ''type'' = Some (JStr ''relation'') \<Longrightarrow>
     transform_property_value fromiso (JObj kvs) = get_each ''id'' (case map_of kvs ''relation'' of None \<Rightarrow> JArr [] | Some v \<Rightarrow> v)"
  by (subst transform_property_value.simps) simp

lemma transform_people:
  "map_of kvs ''type'' = Some (JStr ''people'') \<Longrightarrow>
     transform_property_value fromiso (JObj kvs) = get_each ''id'' (case map_of kvs ''people'' of None \<Rightarrow> JArr [] | Some v \<Rightarrow> v)"
  by (subst transform_property_value.simps) simp

lemma transform_files:
  "map_of kvs ''type'' = Some (JStr ''files'') \<Longrightarrow>
     transform_property_value fromiso (JObj kvs) = get_each ''name'' (case map_of kvs ''files'' of None \<Rightarrow> JArr [] | Some v \<Rightarrow> v)"
  by (subst transform_property_value.simps) simp

lemma transform_date:
  "map_of kvs ''type'' = Some (JStr ''date'') \<Longrightarrow>
     transform_property_value fromiso (JObj kvs) = date_start fromiso (case map_of kvs ''date'' of None \<Rightarrow> JNull | Some v \<Rightarrow> v)"
  by (subst transform_property_value.simps) simp

lemma transform_formula:
  "map_of kvs ''type'' = Some (JStr ''formula'') \<Longrightarrow>
     transform_property_value fromiso (JObj kvs) = transform_property_value fromiso (case map_of kvs ''formula'' of None \<Rightarrow> JObj [] | Some f \<Rightarrow> f)"
  by (subst transform_property_value.simps) simp


lemma transform_other:
  assumes "map_of kvs ''type'' = Some (JStr t)"
    and "t \<noteq> ''title''" "t \<noteq> ''rich_text''" "t \<noteq> ''select''" "t \<noteq> ''status''"
      "t \<noteq> ''multi_select''" "t \<noteq> ''relation''" "t \<noteq> ''people''" "t \<noteq> ''files''"
      "t \<noteq> ''date''" "t \<noteq> ''formula''"
  shows "\<exists>v. transform_property_value fromiso (JObj kvs) = Inr v"
  using assms by (subst transform_property_value.simps) simp

lemma transform_untagged:
  assumes "\<And>t. map_of kvs ''type'' \<noteq> Some (JStr t)"
  shows "transform_property_value fromiso (JObj kvs) = Inr (JObj kvs)"
proof (cases "map_of kvs ''type''")
  case None
  then show ?thesis by (subst transform_property_value.simps) simp
next
  case (Some x)
  with assms have "\<And>t. x \<noteq> JStr t" by auto
  with Some show ?thesis by (subst transform_property_value.simps) simp
qed


lemma wf_rich: 
  assumes "case m of None \<Rightarrow> True | Some (JArr ts) \<Rightarrow> list_all rich_text_run ts | Some _ \<Rightarrow> False"
  shows "\<exists>v. join_plain_text (case m of None \<Rightarrow> JArr [] | Some v \<Rightarrow> v) = Inr v"
proof (cases m)
  case None
  then show ?thesis using join_plain_text_total [of "[]"] by simp
next
  case (Some u)
  with assms obtain ts where "u = JArr ts" "list_all rich_text_run ts"
    by (cases u) simp_all
  with Some show ?thesis using join_plain_text_total [of ts] by simp
qed

lemma wf_choice:
  assumes "case m of None \<Rightarrow> True | Some v \<Rightarrow> v = JNull \<or> is_dict v"
  shows "\<exists>v. name_or_none (case m of None \<Rightarrow> JNull | Some v \<Rightarrow> v) = Inr v"
proof (cases m)
  case None
  then show ?thesis by (simp add: name_or_none_def)
next
  case (Some u)
  with assms have "u = JNull \<or> is_dict u" by simp
  with Some show ?thesis using name_or_none_total [of u] by simp
qed

lemma wf_lists:
  assumes "case m of None \<Rightarrow> True | Some (JArr xs) \<Rightarrow> list_all is_dict xs | Some _ \<Rightarrow> False"
  shows "\<exists>v. get_each key (case m of None \<Rightarrow> JArr [] | Some v \<Rightarrow> v) = Inr v"
proof (cases m)
  case None
  then show ?thesis using get_each_total [of "[]" key] by simp
next
  case (Some u)
  with assms obtain xs where "u = JArr xs" "list_all is_dict xs"
    by (cases u) simp_all
  with Some show ?thesis using get_each_total [of xs key] by simp
qed

lemma wf_dates:
  assumes "case m of None \<Rightarrow> True | Some d \<Rightarrow> wf_date d"
  shows "\<exists>v. date_start fromiso (case m of None \<Rightarrow> JNull | Some v \<Rightarrow> v) = Inr v"
proof (cases m)
  case None
  then show ?thesis using date_start_total [of JNull fromiso] by simp
next
  case (Some u)
  with assms have "wf_date u" by simp
  with Some show ?thesis using date_start_total [of u fromiso] by simp
qed

lemma transform_total:
  "wf_payload p \<Longrightarrow> \<exists>v. transform_property_value fromiso p = Inr v"
proof (induction p rule: measure_induct_rule [where f = size])
  case (less p)
  from less.prems obtain kvs where p: "p = JObj kvs" by (cases p) simp_all
  show ?case
  proof (cases "\<exists>t. map_of kvs ''type'' = Some (JStr t)")
    case False
    then have "\<And>t. map_of kvs ''type'' \<noteq> Some (JStr t)" by blast
    then have "transform_property_value fromiso (JObj kvs) = Inr (JObj kvs)"
      by (rule transform_untagged)
    with p show ?thesis by simp
  next
    case True
    then obtain t where ty: "map_of kvs ''type'' = Some (JStr t)" ..
    from less.prems p have wfk: "wf_payload (JObj kvs)" by simp
    consider (title) "t = ''title''" | (rich_text) "t = ''rich_text''"
      | (select) "t = ''select''" | (status) "t = ''status''"
      | (multi_select) "t = ''multi_select''" | (relation) "t = ''relation''"
      | (people) "t = ''people''" | (files) "t = ''files''"
      | (dates) "t = ''date''"
      | (formula) "t = ''formula''"
      | (other) "t \<noteq> ''title''" "t \<noteq> ''rich_text''" "t \<noteq> ''select''" "t \<noteq> ''status''"
          "t \<noteq> ''multi_select''" "t \<noteq> ''relation''" "t \<noteq> ''people''" "t \<noteq> ''files''"
          "t \<noteq> ''date''" "t \<noteq> ''formula''"
      by blast
    then have "\<exists>v. transform_property_value fromiso (JObj kvs) = Inr v"
    proof cases
      case title
      with wfk ty show ?thesis
        by (simp add: wf_payload.simps(1) transform_title wf_rich)
    next
      case rich_text
      with wfk ty show ?thesis
        by (simp add: wf_payload.simps(1) transform_rich_text wf_rich)
    next
      case select
      with wfk ty show ?thesis
        by (simp add: wf_payload.simps(1) transform_select wf_choice)
    next
      case status
      with wfk ty show ?thesis
        by (simp add: wf_payload.simps(1) transform_status wf_choice)
    next
      case multi_select
      with wfk ty show ?thesis
        by (simp add: wf_payload.simps(1) transform_multi_select wf_lists)
    next
      case relation
      with wfk ty show ?thesis
        by (simp add: wf_payload.simps(1) transform_relation wf_lists)
    next
      case people
      with wfk ty show ?thesis
        by (simp add: wf_payload.simps(1) transform_people wf_lists)
    next
      case files
      with wfk ty show ?thesis
        by (simp add: wf_payload.simps(1) transform_files wf_lists)
    next
      case dates
      with wfk ty show ?thesis
        by (simp add: wf_payload.simps(1) transform_date wf_dates)
    next
      case formula
      show ?thesis
      proof (cases "map_of kvs ''formula''")
        case None
        with formula ty show ?thesis
          by (simp add: transform_formula transform_untagged)
      next
        case (Some f)
        with wfk ty formula have "wf_payload f" by (simp add: wf_payload.simps(1))
        moreover from Some p have "size f < size p" by (auto dest: map_of_size)
        ultimately have "\<exists>v. transform_property_value fromiso f = Inr v"
          by (rule less.IH [rotated])
        with formula ty Some show ?thesis
          by (simp add: transform_formula)
      qed
    next
      case other
      with ty show ?thesis by (rule transform_other)
    qed
    with p show ?thesis by simp
  qed
qed

text \<open>
  Claim C8. On a payload of the shape the service sends (\<open>wf_payload\<close>), whatever its
  type tag, the normalizer returns a value: no branch raises. For a payload tagged
  \<^verbatim>\<open>date\<close>: a missing or \<^verbatim>\<open>null\<close> date gives \<^verbatim>\<open>null\<close>; a date whose
  \<^verbatim>\<open>start\<close> is a non-empty string gives the re-serialized date-time where
  \<^verbatim>\<open>fromisoformat\<close> accepts the string, and the string itself, unchanged, where it
  does not; a date without a \<^verbatim>\<open>start\<close>, or with a \<^verbatim>\<open>null\<close> or empty one, gives
  \<^verbatim>\<open>null\<close>.
\<close>

theorem normalizer_total:
  "(wf_payload p \<longrightarrow> (\<exists>v. transform_property_value fromiso p = Inr v)) \<and>
   (map_of kvs ''type'' = Some (JStr ''date'') \<longrightarrow>
      ((map_of kvs ''date'' = None \<or> map_of kvs ''date'' = Some JNull) \<longrightarrow>
         transform_property_value fromiso (JObj kvs) = Inr JNull) \<and>
      (map_of kvs ''date'' = Some (JObj d) \<and> map_of d ''start'' = Some (JStr s) \<and> s \<noteq> [] \<longrightarrow>
         transform_property_value fromiso (JObj kvs) =
           Inr (JStr (case fromiso s of Some iso_text \<Rightarrow> iso_text | None \<Rightarrow> s))) \<and>
      (map_of kvs ''date'' = Some (JObj d) \<and>
       (map_of d ''start'' = None \<or> map_of d ''start'' = Some JNull \<or>
        map_of d ''start'' = Some (JStr [])) \<longrightarrow>
         transform_property_value fromiso (JObj kvs) = Inr JNull))"
proof (intro conjI impI)
  assume "wf_payload p"
  then show "\<exists>v. transform_property_value fromiso p = Inr v" by (rule transform_total)
next
  assume "map_of kvs ''type'' = Some (JStr ''date'')"
    and "map_of kvs ''date'' = None \<or> map_of kvs ''date'' = Some JNull"
  then show "transform_property_value fromiso (JObj kvs) = Inr JNull"
    by (auto simp: transform_date date_start_def)
next
  assume ty: "map_of kvs ''type'' = Some (JStr ''date'')"
    and "map_of kvs ''date'' = Some (JObj d) \<and> map_of d ''start'' = Some (JStr s) \<and> s \<noteq> []"
  then have dt: "map_of kvs ''date'' = Some (JObj d)" and st: "map_of d ''start'' = Some (JStr s)"
    and ne: "s \<noteq> []" by simp_all
  from st have "d \<noteq> []" by auto
  with ty dt st ne show "transform_property_value fromiso (JObj kvs) =
      Inr (JStr (case fromiso s of Some iso_text \<Rightarrow> iso_text | None \<Rightarrow> s))"
    by (simp add: transform_date date_start_def split: option.splits)
next
  assume "map_of kvs ''type'' = Some (JStr ''date'')"
    and "map_of kvs ''date'' = Some (JObj d) \<and>
       (map_of d ''start'' = None \<or> map_of d ''start'' = Some JNull \<or>
        map_of d ''start'' = Some (JStr []))"
  then show "transform_property_value fromiso (JObj kvs) = Inr JNull"
    by (auto simp: transform_date date_start_def)
qed

theorem normalizer_total_witness:
  "wf_payload (JObj [(''type'', JStr ''date''), (''date'', JObj [(''start'', JStr ''2024-01-15'')])]) \<and>
   transform_property_value
     (\<lambda>s. if s = ''2024-01-15'' then Some ''2024-01-15T00:00:00'' else None)
     (JObj [(''type'', JStr ''date''), (''date'', JObj [(''start'', JStr ''2024-01-15'')])])
     = Inr (JStr ''2024-01-15T00:00:00'') \<and>
   transform_property_value
     (\<lambda>s. if s = ''2024-01-15'' then Some ''2024-01-15T00:00:00'' else None)
     (JObj [(''type'', JStr ''date''), (''date'', JObj [(''start'', JStr ''soon'')])])
     = Inr (JStr ''soon'') \<and>
   transform_property_value
     (\<lambda>s. if s = ''2024-01-15'' then Some ''2024-01-15T00:00:00'' else None)
     (JObj [(''type'', JStr ''date''), (''date'', JNull)])
     = Inr JNull"
  using
    normalizer_total [of
      "JObj [(''type'', JStr ''date''), (''date'', JObj [(''start'', JStr ''2024-01-15'')])]"
      "\<lambda>s. if s = ''2024-01-15'' then Some ''2024-01-15T00:00:00'' else None"
      "[(''type'', JStr ''date''), (''date'', JObj [(''start'', JStr ''2024-01-15'')])]"
      "[(''start'', JStr ''2024-01-15'')]" "''2024-01-15''"]
    normalizer_total [of
      "JObj [(''type'', JStr ''date''), (''date'', JObj [(''start'', JStr ''soon'')])]"
      "\<lambda>s. if s = ''2024-01-15'' then Some ''2024-01-15T00:00:00'' else None"
      "[(''type'', JStr ''date''), (''date'', JObj [(''start'', JStr ''soon'')])]"
      "[(''start'', JStr ''soon'')]" "''soon''"]
    normalizer_total [of
      "JObj [(''type'', JStr ''date''), (''date'', JNull)]"
      "\<lambda>s. if s = ''2024-01-15'' then Some ''2024-01-15T00:00:00'' else None"
      "[(''type'', JStr ''date''), (''date'', JNull)]"]
  by (simp add: wf_payload.simps(1))

lemma transform_texts:
  assumes "map_of kvs ''type'' = Some (JStr t)" and "t = ''title'' \<or> t = ''rich_text''"
  shows "transform_property_value fromiso (JObj kvs) =
           join_plain_text (case map_of kvs t of None \<Rightarrow> JArr [] | Some v \<Rightarrow> v)"
proof -
  from assms(2) consider "t = ''title''" | "t = ''rich_text''" by blast
  then show ?thesis
  proof cases
    case 1
    with assms(1) show ?thesis by (simp add: transform_title)
  next
    case 2
    with assms(1) show ?thesis by (simp add: transform_rich_text)
  qed
qed

lemma transform_choices:
  assumes "map_of kvs ''type'' = Some (JStr t)" and "t = ''select'' \<or> t = ''status''"
  shows "transform_property_value fromiso (JObj kvs) =
           name_or_none (case map_of kvs t of None \<Rightarrow> JNull | Some v \<Rightarrow> v)"
proof -
  from assms(2) consider "t = ''select''" | "t = ''status''" by blast
  then show ?thesis
  proof cases
    case 1
    with assms(1) show ?thesis by (simp add: transform_select)
  next
    case 2
    with assms(1) show ?thesis by (simp add: transform_status)
  qed
qed

lemma transform_names:
  assumes "map_of kvs ''type'' = Some (JStr t)" and "t = ''multi_select'' \<or> t = ''files''"
  shows "transform_property_value fromiso (JObj kvs) =
           get_each ''name'' (case map_of kvs t of None \<Rightarrow> JArr [] | Some v \<Rightarrow> v)"
proof -
  from assms(2) consider "t = ''multi_select''" | "t = ''files''" by blast
  then show ?thesis
  proof cases
    case 1
    with assms(1) show ?thesis by (simp add: transform_multi_select)
  next
    case 2
    with assms(1) show ?thesis by (simp add: transform_files)
  qed
qed

lemma transform_ids:
  assumes "map_of kvs ''type'' = Some (JStr t)" and "t = ''relation'' \<or> t = ''people''"
  shows "transform_property_value fromiso (JObj kvs) =
           get_each ''id'' (case map_of kvs t of None \<Rightarrow> JArr [] | Some v \<Rightarrow> v)"
proof -
  from assms(2) consider "t = ''relation''" | "t = ''people''" by blast
  then show ?thesis
  proof cases
    case 1
    with assms(1) show ?thesis by (simp add: transform_relation)
  next
    case 2
    with assms(1) show ?thesis by (simp add: transform_people)
  qed
qed

lemma transform_raw:
  assumes ty: "map_of kvs ''type'' = Some (JStr t)"
    and "t = ''number'' \<or> t = ''checkbox'' \<or> t = ''url'' \<or> t = ''email'' \<or>
         t = ''phone_number'' \<or> t = ''created_time'' \<or> t = ''created_by'' \<or>
         t = ''last_edited_time'' \<or> t = ''last_edited_by''"
  shows "transform_property_value fromiso (JObj kvs) =
           Inr (case map_of kvs t of None \<Rightarrow> JNull | Some v \<Rightarrow> v)"
  using assms(2)
proof (elim disjE)
    assume "t = ''number''"
    with ty show ?thesis by (subst transform_property_value.simps) simp
  next
    assume "t = ''checkbox''"
    with ty show ?thesis by (subst transform_property_value.simps) simp
  next
    assume "t = ''url''"
    with ty show ?thesis by (subst transform_property_value.simps) simp
  next
    assume "t = ''email''"
    with ty show ?thesis by (subst transform_property_value.simps) simp
  next
    assume "t = ''phone_number''"
    with ty show ?thesis by (subst transform_property_value.simps) simp
  next
    assume "t = ''created_time''"
    with ty show ?thesis by (subst transform_property_value.simps) simp
  next
    assume "t = ''created_by''"
    with ty show ?thesis by (subst transform_property_value.simps) simp
  next
    assume "t = ''last_edited_time''"
    with ty show ?thesis by (subst transform_property_value.simps) simp
  next
    assume "t = ''last_edited_by''"
    with ty show ?thesis by (subst transform_property_value.simps) simp
qed

lemma transform_unknown:
  assumes "map_of kvs ''type'' = Some (JStr t)"
    and "t \<noteq> ''title'' \<and> t \<noteq> ''rich_text'' \<and> t \<noteq> ''number'' \<and> t \<noteq> ''select'' \<and>
         t \<noteq> ''multi_select'' \<and> t \<noteq> ''status'' \<and> t \<noteq> ''date'' \<and> t \<noteq> ''checkbox'' \<and>
         t \<noteq> ''url'' \<and> t \<noteq> ''email'' \<and> t \<noteq> ''phone_number'' \<and> t \<noteq> ''formula'' \<and>
         t \<noteq> ''relation'' \<and> t \<noteq> ''people'' \<and> t \<noteq> ''files'' \<and> t \<noteq> ''created_time'' \<and>
         t \<noteq> ''created_by'' \<and> t \<noteq> ''last_edited_time'' \<and> t \<noteq> ''last_edited_by''"
  shows "transform_property_value fromiso (JObj kvs) = Inr (JObj kvs)"
  using assms by (subst transform_property_value.simps) simp

lemma transform_not_dict:
  "\<not> is_dict p \<Longrightarrow> transform_property_value fromiso p = Inl AttributeError"
  by (cases p) (simp_all add: transform_property_value.simps)

text \<open>
  Claim C6. A payload tagged \<^verbatim>\<open>formula\<close> is normalized by the same dispatch, applied
  to the nested computed value and its own type tag. With the nested value a dictionary
  tagged \<open>t\<close>: the joined plain text of its runs for \<^verbatim>\<open>title\<close> and
  \<^verbatim>\<open>rich_text\<close>; the value under the tag's key for \<^verbatim>\<open>number\<close>,
  \<^verbatim>\<open>checkbox\<close>, \<^verbatim>\<open>url\<close>, \<^verbatim>\<open>email\<close>, \<^verbatim>\<open>phone_number\<close> and the four
  \<^verbatim>\<open>created\<close> and \<^verbatim>\<open>last_edited\<close> tags; the option's name for \<^verbatim>\<open>select\<close>
  and \<^verbatim>\<open>status\<close>; the list of names for \<^verbatim>\<open>multi_select\<close> and \<^verbatim>\<open>files\<close>,
  of identifiers for \<^verbatim>\<open>relation\<close> and \<^verbatim>\<open>people\<close>; the start of a
  \<^verbatim>\<open>date\<close>; the normalization of the next nested value for \<^verbatim>\<open>formula\<close>; and
  the nested dictionary itself for any other tag (the service's \<^verbatim>\<open>string\<close> and
  \<^verbatim>\<open>boolean\<close> results among them) and for a missing tag. A missing key
  \<^verbatim>\<open>formula\<close> gives the empty dictionary, and a nested value that is not a
  dictionary raises \<^verbatim>\<open>AttributeError\<close>. At
  \<^verbatim>\<open>{type: formula, formula: {type: number, number: 5}}\<close> the result is the number 5.
\<close>

theorem formula_recursive:
  assumes ty: "map_of kvs ''type'' = Some (JStr ''formula'')"
  shows
    "transform_property_value fromiso (JObj kvs) =
       transform_property_value fromiso
         (case map_of kvs ''formula'' of None \<Rightarrow> JObj [] | Some f \<Rightarrow> f) \<and>
     (map_of kvs ''formula'' = None \<longrightarrow> transform_property_value fromiso (JObj kvs) = Inr (JObj [])) \<and>
     (map_of kvs ''formula'' = Some f \<and> \<not> is_dict f \<longrightarrow>
        transform_property_value fromiso (JObj kvs) = Inl AttributeError) \<and>
     (map_of kvs ''formula'' = Some (JObj fk) \<longrightarrow>
        ((\<forall>u. map_of fk ''type'' \<noteq> Some (JStr u)) \<longrightarrow>
           transform_property_value fromiso (JObj kvs) = Inr (JObj fk)) \<and>
        (map_of fk ''type'' = Some (JStr t) \<longrightarrow>
           (t = ''title'' \<or> t = ''rich_text'' \<longrightarrow>
              transform_property_value fromiso (JObj kvs) =
                join_plain_text (case map_of fk t of None \<Rightarrow> (JArr []) | Some v \<Rightarrow> v)) \<and>
           (t = ''number'' \<or> t = ''checkbox'' \<or> t = ''url'' \<or> t = ''email'' \<or>
             t = ''phone_number'' \<or> t = ''created_time'' \<or> t = ''created_by'' \<or>
             t = ''last_edited_time'' \<or> t = ''last_edited_by'' \<longrightarrow>
              transform_property_value fromiso (JObj kvs) =
                Inr (case map_of fk t of None \<Rightarrow> JNull | Some v \<Rightarrow> v)) \<and>
           (t = ''select'' \<or> t = ''status'' \<longrightarrow>
              transform_property_value fromiso (JObj kvs) =
                name_or_none (case map_of fk t of None \<Rightarrow> JNull | Some v \<Rightarrow> v)) \<and>
           (t = ''multi_select'' \<or> t = ''files'' \<longrightarrow>
              transform_property_value fromiso (JObj kvs) =
                get_each ''name'' (case map_of fk t of None \<Rightarrow> (JArr []) | Some v \<Rightarrow> v)) \<and>
           (t = ''relation'' \<or> t = ''people'' \<longrightarrow>
              transform_property_value fromiso (JObj kvs) =
                get_each ''id'' (case map_of fk t of None \<Rightarrow> (JArr []) | Some v \<Rightarrow> v)) \<and>
           (t = ''date'' \<longrightarrow>
              transform_property_value fromiso (JObj kvs) =
                date_start fromiso (case map_of fk ''date'' of None \<Rightarrow> JNull | Some v \<Rightarrow> v)) \<and>
           (t = ''formula'' \<longrightarrow>
              transform_property_value fromiso (JObj kvs) =
                transform_property_value fromiso (case map_of fk ''formula'' of None \<Rightarrow> (JObj []) | Some v \<Rightarrow> v)) \<and>
           (t \<noteq> ''title'' \<and> t \<noteq> ''rich_text'' \<and> t \<noteq> ''number'' \<and> t \<noteq> ''select'' \<and>
             t \<noteq> ''multi_select'' \<and> t \<noteq> ''status'' \<and> t \<noteq> ''date'' \<and> t \<noteq> ''checkbox'' \<and>
             t \<noteq> ''url'' \<and> t \<noteq> ''email'' \<and> t \<noteq> ''phone_number'' \<and> t \<noteq> ''formula'' \<and>
             t \<noteq> ''relation'' \<and> t \<noteq> ''people'' \<and> t \<noteq> ''files'' \<and> t \<noteq> ''created_time'' \<and>
             t \<noteq> ''created_by'' \<and> t \<noteq> ''last_edited_time'' \<and> t \<noteq> ''last_edited_by'' \<longrightarrow>
              transform_property_value fromiso (JObj kvs) = Inr (JObj fk))))"
proof (intro conjI impI)
  let ?T = "transform_property_value fromiso (JObj kvs)"
  show rec: "?T = transform_property_value fromiso
      (case map_of kvs ''formula'' of None \<Rightarrow> JObj [] | Some f \<Rightarrow> f)"
    using ty by (rule transform_formula)
  show "?T = Inr (JObj [])" if "map_of kvs ''formula'' = None"
    using rec that by (simp add: transform_untagged)
  show "?T = Inl AttributeError" if "map_of kvs ''formula'' = Some f \<and> \<not> is_dict f"
    using rec that by (simp add: transform_not_dict)
  show "?T = Inr (JObj fk)"
    if n: "map_of kvs ''formula'' = Some (JObj fk)" and "\<forall>u. map_of fk ''type'' \<noteq> Some (JStr u)"
  proof -
    from that(2) have "\<And>u. map_of fk ''type'' \<noteq> Some (JStr u)" by blast
    then have "transform_property_value fromiso (JObj fk) = Inr (JObj fk)"
      by (rule transform_untagged)
    with rec n show ?thesis by simp
  qed
  show "?T = join_plain_text (case map_of fk t of None \<Rightarrow> (JArr []) | Some v \<Rightarrow> v)"
    if n: "map_of kvs ''formula'' = Some (JObj fk)" and t: "map_of fk ''type'' = Some (JStr t)"
      and c: "t = ''title'' \<or> t = ''rich_text''"
  proof -
    from t c have "transform_property_value fromiso (JObj fk) = join_plain_text (case map_of fk t of None \<Rightarrow> (JArr []) | Some v \<Rightarrow> v)"
      by (rule transform_texts)
    with rec n show ?thesis by simp
  qed
  show "?T = Inr (case map_of fk t of None \<Rightarrow> JNull | Some v \<Rightarrow> v)"
    if n: "map_of kvs ''formula'' = Some (JObj fk)" and t: "map_of fk ''type'' = Some (JStr t)"
      and c: "t = ''number'' \<or> t = ''checkbox'' \<or> t = ''url'' \<or> t = ''email'' \<or>
             t = ''phone_number'' \<or> t = ''created_time'' \<or> t = ''created_by'' \<or>
             t = ''last_edited_time'' \<or> t = ''last_edited_by''"
  proof -
    from t c have "transform_property_value fromiso (JObj fk) = Inr (case map_of fk t of None \<Rightarrow> JNull | Some v \<Rightarrow> v)"
      by (rule transform_raw)
    with rec n show ?thesis by simp
  qed
  show "?T = name_or_none (case map_of fk t of None \<Rightarrow> JNull | Some v \<Rightarrow> v)"
    if n: "map_of kvs ''formula'' = Some (JObj fk)" and t: "map_of fk ''type'' = Some (JStr t)"
      and c: "t = ''select'' \<or> t = ''status''"
  proof -
    from t c have "transform_property_value fromiso (JObj fk) = name_or_none (case map_of fk t of None \<Rightarrow> JNull | Some v \<Rightarrow> v)"
      by (rule transform_choices)
    with rec n show ?thesis by simp
  qed
  show "?T = get_each ''name'' (case map_of fk t of None \<Rightarrow> (JArr []) | Some v \<Rightarrow> v)"
    if n: "map_of kvs ''formula'' = Some (JObj fk)" and t: "map_of fk ''type'' = Some (JStr t)"
      and c: "t = ''multi_select'' \<or> t = ''files''"
  proof -
    from t c have "transform_property_value fromiso (JObj fk) = get_each ''name'' (case map_of fk t of None \<Rightarrow> (JArr []) | Some v \<Rightarrow> v)"
      by (rule transform_names)
    with rec n show ?thesis by simp
  qed
  show "?T = get_each ''id'' (case map_of fk t of None \<Rightarrow> (JArr []) | Some v \<Rightarrow> v)"
    if n: "map_of kvs ''formula'' = Some (JObj fk)" and t: "map_of fk ''type'' = Some (JStr t)"
      and c: "t = ''relation'' \<or> t = ''people''"
  proof -
    from t c have "transform_property_value fromiso (JObj fk) = get_each ''id'' (case map_of fk t of None \<Rightarrow> (JArr []) | Some v \<Rightarrow> v)"
      by (rule transform_ids)
    with rec n show ?thesis by simp
  qed
  show "?T = date_start fromiso (case map_of fk ''date'' of None \<Rightarrow> JNull | Some v \<Rightarrow> v)"
    if n: "map_of kvs ''formula'' = Some (JObj fk)" and t: "map_of fk ''type'' = Some (JStr t)" and c: "t = ''date''"
  proof -
    from t c have "transform_property_value fromiso (JObj fk) =
        date_start fromiso (case map_of fk ''date'' of None \<Rightarrow> JNull | Some v \<Rightarrow> v)"
      by (simp add: transform_date)
    with rec n show ?thesis by simp
  qed
  show "?T = transform_property_value fromiso (case map_of fk ''formula'' of None \<Rightarrow> (JObj []) | Some v \<Rightarrow> v)"
    if n: "map_of kvs ''formula'' = Some (JObj fk)" and t: "map_of fk ''type'' = Some (JStr t)" and c: "t = ''formula''"
  proof -
    from t c have "transform_property_value fromiso (JObj fk) =
        transform_property_value fromiso (case map_of fk ''formula'' of None \<Rightarrow> (JObj []) | Some v \<Rightarrow> v)"
      by (simp add: transform_formula)
    with rec n show ?thesis by simp
  qed
  show "?T = Inr (JObj fk)"
    if n: "map_of kvs ''formula'' = Some (JObj fk)" and t: "map_of fk ''type'' = Some (JStr t)"
      and c: "t \<noteq> ''title'' \<and> t \<noteq> ''rich_text'' \<and> t \<noteq> ''number'' \<and> t \<noteq> ''select'' \<and>
             t \<noteq> ''multi_select'' \<and> t \<noteq> ''status'' \<and> t \<noteq> ''date'' \<and> t \<noteq> ''checkbox'' \<and>
             t \<noteq> ''url'' \<and> t \<noteq> ''email'' \<and> t \<noteq> ''phone_number'' \<and> t \<noteq> ''formula'' \<and>
             t \<noteq> ''relation'' \<and> t \<noteq> ''people'' \<and> t \<noteq> ''files'' \<and> t \<noteq> ''created_time'' \<and>
             t \<noteq> ''created_by'' \<and> t \<noteq> ''last_edited_time'' \<and> t \<noteq> ''last_edited_by''"
  proof -
    from t c have "transform_property_value fromiso (JObj fk) = Inr (JObj fk)"
      by (rule transform_unknown)
    with rec n show ?thesis by simp
  qed
qed

theorem formula_recursive_witness:
  "\<forall>fromiso.
     transform_property_value fromiso
       (JObj [(''type'', JStr ''formula''), (''formula'', JObj [(''type'', JStr ''number''), (''number'', JInt 5)])]) =
     Inr (JInt 5) \<and>
     transform_property_value fromiso
       (JObj [(''type'', JStr ''formula''), (''formula'', JObj [(''type'', JStr ''string''), (''string'', JStr ''abc'')])]) =
     Inr (JObj [(''type'', JStr ''string''), (''string'', JStr ''abc'')]) \<and>
     transform_property_value fromiso
       (JObj [(''type'', JStr ''formula''), (''formula'', JObj [(''type'', JStr ''boolean''), (''boolean'', JBool True)])]) =
     Inr (JObj [(''type'', JStr ''boolean''), (''boolean'', JBool True)]) \<and>
     transform_property_value fromiso
       (JObj [(''type'', JStr ''formula''), (''formula'', JObj [(''type'', JStr ''date''), (''date'', JObj [(''start'', JStr ''2024-01-15'')])])]) =
     Inr (JStr (case fromiso ''2024-01-15'' of None \<Rightarrow> ''2024-01-15'' | Some iso_text \<Rightarrow> iso_text)) \<and>
     transform_property_value fromiso (JObj [(''type'', JStr ''formula'')]) = Inr (JObj []) \<and>
     transform_property_value fromiso (JObj [(''type'', JStr ''formula''), (''formula'', JNull)]) = Inl AttributeError"
proof
  fix fromiso :: "string \<Rightarrow> string option"
  have w0: "transform_property_value fromiso
       (JObj [(''type'', JStr ''formula''), (''formula'', JObj [(''type'', JStr ''number''), (''number'', JInt 5)])]) =
     Inr (JInt 5)"
    using formula_recursive [of "[(''type'', JStr ''formula''), (''formula'', JObj [(''type'', JStr ''number''), (''number'', JInt 5)])]" fromiso "JObj [(''type'', JStr ''number''), (''number'', JInt 5)]" "[(''type'', JStr ''number''), (''number'', JInt 5)]" "''number''", THEN conjunct2]
    by (simp add: date_start_def split: option.splits)
  have w1: "transform_property_value fromiso
       (JObj [(''type'', JStr ''formula''), (''formula'', JObj [(''type'', JStr ''string''), (''string'', JStr ''abc'')])]) =
     Inr (JObj [(''type'', JStr ''string''), (''string'', JStr ''abc'')])"
    using formula_recursive [of "[(''type'', JStr ''formula''), (''formula'', JObj [(''type'', JStr ''string''), (''string'', JStr ''abc'')])]" fromiso "JObj [(''type'', JStr ''string''), (''string'', JStr ''abc'')]" "[(''type'', JStr ''string''), (''string'', JStr ''abc'')]" "''string''", THEN conjunct2]
    by (simp add: date_start_def split: option.splits)
  have w2: "transform_property_value fromiso
       (JObj [(''type'', JStr ''formula''), (''formula'', JObj [(''type'', JStr ''boolean''), (''boolean'', JBool True)])]) =
     Inr (JObj [(''type'', JStr ''boolean''), (''boolean'', JBool True)])"
    using formula_recursive [of "[(''type'', JStr ''formula''), (''formula'', JObj [(''type'', JStr ''boolean''), (''boolean'', JBool True)])]" fromiso "JObj [(''type'', JStr ''boolean''), (''boolean'', JBool True)]" "[(''type'', JStr ''boolean''), (''boolean'', JBool True)]" "''boolean''", THEN conjunct2]
    by (simp add: date_start_def split: option.splits)
  have w3: "transform_property_value fromiso
       (JObj [(''type'', JStr ''formula''), (''formula'', JObj [(''type'', JStr ''date''), (''date'', JObj [(''start'', JStr ''2024-01-15'')])])]) =
     Inr (JStr (case fromiso ''2024-01-15'' of None \<Rightarrow> ''2024-01-15'' | Some iso_text \<Rightarrow> iso_text))"
    using formula_recursive [of "[(''type'', JStr ''formula''), (''formula'', JObj [(''type'', JStr ''date''), (''date'', JObj [(''start'', JStr ''2024-01-15'')])])]" fromiso "JObj [(''type'', JStr ''date''), (''date'', JObj [(''start'', JStr ''2024-01-15'')])]" "[(''type'', JStr ''date''), (''date'', JObj [(''start'', JStr ''2024-01-15'')])]" "''date''", THEN conjunct2]
    by (simp add: date_start_def split: option.splits)
  have w4: "transform_property_value fromiso (JObj [(''type'', JStr ''formula'')]) = Inr (JObj [])"
    using formula_recursive [of "[(''type'', JStr ''formula'')]" fromiso JNull "[]" "''number''", THEN conjunct2]
    by (simp add: date_start_def split: option.splits)
  have w5: "transform_property_value fromiso (JObj [(''type'', JStr ''formula''), (''formula'', JNull)]) = Inl AttributeError"
    using formula_recursive [of "[(''type'', JStr ''formula''), (''formula'', JNull)]" fromiso "JNull" "[]" "''number''", THEN conjunct2]
    by (simp add: date_start_def split: option.splits)
  from w0 w1 w2 w3 w4 w5
  show "transform_property_value fromiso
       (JObj [(''type'', JStr ''formula''), (''formula'', JObj [(''type'', JStr ''number''), (''number'', JInt 5)])]) =
     Inr (JInt 5) \<and>
     transform_property_value fromiso
       (JObj [(''type'', JStr ''formula''), (''formula'', JObj [(''type'', JStr ''string''), (''string'', JStr ''abc'')])]) =
     Inr (JObj [(''type'', JStr ''string''), (''string'', JStr ''abc'')]) \<and>
     transform_property_value fromiso
       (JObj [(''type'', JStr ''formula''), (''formula'', JObj [(''type'', JStr ''boolean''), (''boolean'', JBool True)])]) =
     Inr (JObj [(''type'', JStr ''boolean''), (''boolean'', JBool True)]) \<and>
     transform_property_value fromiso
       (JObj [(''type'', JStr ''formula''), (''formula'', JObj [(''type'', JStr ''date''), (''date'', JObj [(''start'', JStr ''2024-01-15'')])])]) =
     Inr (JStr (case fromiso ''2024-01-15'' of None \<Rightarrow> ''2024-01-15'' | Some iso_text \<Rightarrow> iso_text)) \<and>
     transform_property_value fromiso (JObj [(''type'', JStr ''formula'')]) = Inr (JObj []) \<and>
     transform_property_value fromiso (JObj [(''type'', JStr ''formula''), (''formula'', JNull)]) = Inl AttributeError"
    by (intro conjI)
qed

text \<open>
  Claim C10. For a payload tagged \<^verbatim>\<open>multi_select\<close>, \<^verbatim>\<open>relation\<close>,
  \<^verbatim>\<open>people\<close> or \<^verbatim>\<open>files\<close> whose value is a list of dictionaries, the result is
  the list of what each dictionary has under the branch's key (\<^verbatim>\<open>name\<close> for
  \<^verbatim>\<open>multi_select\<close> and \<^verbatim>\<open>files\<close>, \<^verbatim>\<open>id\<close> for \<^verbatim>\<open>relation\<close> and
  \<^verbatim>\<open>people\<close>): one element per input element, in the input's order, and
  \<^verbatim>\<open>null\<close> for an element without the key. Nothing is dropped, so the result can
  contain \<^verbatim>\<open>null\<close>.
\<close>

theorem list_values_elementwise:
  assumes "(t, key) \<in> {(''multi_select'', ''name''), (''relation'', ''id''),
                        (''people'', ''id''), (''files'', ''name'')}"
    and ty: "map_of kvs ''type'' = Some (JStr t)"
    and v: "map_of kvs t = Some (JArr (map JObj os))"
  shows "transform_property_value fromiso (JObj kvs) =
           Inr (JArr (map (\<lambda>ob. case map_of ob key of None \<Rightarrow> JNull | Some v \<Rightarrow> v) os))"
proof -
  from assms(1) consider
      "t = ''multi_select''" "key = ''name''"
    | "t = ''relation''" "key = ''id''"
    | "t = ''people''" "key = ''id''"
    | "t = ''files''" "key = ''name''"
    by auto
  then show ?thesis
  proof cases
    case 1
    with ty v show ?thesis
      by (subst transform_property_value.simps) (simp add: get_each_objs)
  next
    case 2
    with ty v show ?thesis
      by (subst transform_property_value.simps) (simp add: get_each_objs)
  next
    case 3
    with ty v show ?thesis
      by (subst transform_property_value.simps) (simp add: get_each_objs)
  next
    case 4
    with ty v show ?thesis
      by (subst transform_property_value.simps) (simp add: get_each_objs)
  qed
qed

theorem list_values_elementwise_witness:
  "\<forall>fromiso. transform_property_value fromiso
     (JObj [(''type'', JStr ''multi_select''),
            (''multi_select'', JArr [JObj [(''name'', JStr ''x'')], JObj [(''color'', JStr ''red'')],
                                     JObj [(''name'', JStr ''y'')]])])
     = Inr (JArr [JStr ''x'', JNull, JStr ''y''])"
proof
  fix fromiso :: "string \<Rightarrow> string option"
  show "transform_property_value fromiso
     (JObj [(''type'', JStr ''multi_select''),
            (''multi_select'', JArr [JObj [(''name'', JStr ''x'')], JObj [(''color'', JStr ''red'')],
                                     JObj [(''name'', JStr ''y'')]])])
     = Inr (JArr [JStr ''x'', JNull, JStr ''y''])"
    using list_values_elementwise [of "''multi_select''" "''name''"
      "[(''type'', JStr ''multi_select''),
            (''multi_select'', JArr [JObj [(''name'', JStr ''x'')], JObj [(''color'', JStr ''red'')],
                                     JObj [(''name'', JStr ''y'')]])]"
      "[[(''name'', JStr ''x'')], [(''color'', JStr ''red'')], [(''name'', JStr ''y'')]]" fromiso]
    by simp
qed


section \<open>Properties of the schema model\<close>

lemma option_names_truthy: "option_names opts = Inr ns \<Longrightarrow> list_all truthy ns"
proof (induction opts arbitrary: ns)
  case Nil
  then show ?case by simp
next
  case (Cons opt rest)
  from Cons.prems obtain kvs where opt: "opt = JObj kvs" by (cases opt) simp_all
  let ?c = "case map_of kvs ''name'' of None \<Rightarrow> JNull | Some v \<Rightarrow> v"
  show ?case
  proof (cases "truthy ?c")
    case False
    with Cons opt show ?thesis by simp
  next
    case True
    then obtain v where v: "map_of kvs ''name'' = Some v" "truthy v"
      by (cases "map_of kvs ''name''") simp_all
    with Cons.prems opt obtain ms where ms: "option_names rest = Inr ms" "ns = v # ms"
      by (cases "option_names rest") auto
    from Cons.IH [OF ms(1)] v(2) ms(2) show ?thesis by simp
  qed
qed

lemma option_names_objs:
  "option_names (map JObj os) =
     Inr (filter truthy (map (\<lambda>ob. case map_of ob ''name'' of None \<Rightarrow> JNull | Some v \<Rightarrow> v) os))"
proof (induction os)
  case Nil
  then show ?case by simp
next
  case (Cons ob os)
  then show ?case by (cases "map_of ob ''name''") simp_all
qed

lemma truthy_no_empty: "list_all truthy ns \<Longrightarrow> JStr [] \<notin> set ns \<and> JNull \<notin> set ns"
  by (induction ns) auto

lemma declared_option_names_truthy:
  "declared_option_names prop_def kind = Inr ns \<Longrightarrow> list_all truthy ns"
  by (auto simp: declared_option_names_def split: sum.splits dest: option_names_truthy)

lemma declared_option_names_objs:
  assumes "map_of pd kind = Some (JObj k)" and "map_of k ''options'' = Some (JArr (map JObj os))"
  shows "declared_option_names (JObj pd) kind =
     Inr (filter truthy (map (\<lambda>ob. case map_of ob ''name'' of None \<Rightarrow> JNull | Some v \<Rightarrow> v) os))"
  using assms by (simp add: declared_option_names_def option_names_objs)

lemma get_status_options_truthy:
  assumes "get_status_options s = (Inr ns, s')"
  shows "list_all truthy ns"
proof (cases "get_status_property_name s")
  case (Pair r s1)
  show ?thesis
  proof (cases r)
    case (Inl e)
    with Pair assms show ?thesis by (simp add: get_status_options_def)
  next
    case (Inr nm)
    show ?thesis
    proof (cases nm)
      case None
      with Pair Inr assms show ?thesis by (simp add: get_status_options_def)
    next
      case (Some n)
      with Pair Inr assms show ?thesis
        by (auto simp: get_status_options_def split: if_splits sum.splits
              dest: declared_option_names_truthy)
    qed
  qed
qed

lemma get_tag_options_truthy:
  "get_tag_options s f = Inr ms \<Longrightarrow> list_all truthy ms"
  by (auto simp: get_tag_options_def split: sum.splits dest: declared_option_names_truthy)

text \<open>
  Claim C9. The lists \<^verbatim>\<open>get_status_options\<close> and \<^verbatim>\<open>get_tag_options\<close> return
  never contain the empty name (nor \<^verbatim>\<open>None\<close>, the name of an option without one).
  Where the field's option list is a list of dictionaries, the result is the list of the
  options' names in the declared order with the empty and the missing names left out.
\<close>

theorem options_skip_empty_names:
  "(get_status_options s = (Inr ns, s') \<longrightarrow> JStr [] \<notin> set ns \<and> JNull \<notin> set ns) \<and>
   (get_tag_options s f = Inr ms \<longrightarrow> JStr [] \<notin> set ms \<and> JNull \<notin> set ms) \<and>
   (schema_data s = JObj sd \<and> map_of sd ''properties'' = Some (JObj ps) \<and>
    map_of ps f = Some (JObj pd) \<and> map_of pd ''multi_select'' = Some (JObj k) \<and>
    map_of k ''options'' = Some (JArr (map JObj os)) \<longrightarrow>
      get_tag_options s f =
        Inr (filter truthy
          (map (\<lambda>ob. case map_of ob ''name'' of None \<Rightarrow> JNull | Some v \<Rightarrow> v) os))) \<and>
   (get_status_property_name s = (Inr (Some n), s1) \<and> n \<noteq> [] \<and>
    schema_data s = JObj sd \<and> map_of sd ''properties'' = Some (JObj ps) \<and>
    map_of ps n = Some (JObj qd) \<and> map_of qd ''status'' = Some (JObj ks) \<and>
    map_of ks ''options'' = Some (JArr (map JObj sos)) \<longrightarrow>
      get_status_options s =
        (Inr (filter truthy
          (map (\<lambda>ob. case map_of ob ''name'' of None \<Rightarrow> JNull | Some v \<Rightarrow> v) sos)), s1))"
proof -
  have A: "JStr [] \<notin> set ns \<and> JNull \<notin> set ns" if "get_status_options s = (Inr ns, s')"
  proof -
    from that have "list_all truthy ns" by (rule get_status_options_truthy)
    then show ?thesis by (rule truthy_no_empty)
  qed
  have B: "JStr [] \<notin> set ms \<and> JNull \<notin> set ms" if "get_tag_options s f = Inr ms"
  proof -
    from that have "list_all truthy ms" by (rule get_tag_options_truthy)
    then show ?thesis by (rule truthy_no_empty)
  qed
  have C: "get_tag_options s f =
        Inr (filter truthy
          (map (\<lambda>ob. case map_of ob ''name'' of None \<Rightarrow> JNull | Some v \<Rightarrow> v) os))"
    if "schema_data s = JObj sd \<and> map_of sd ''properties'' = Some (JObj ps) \<and>
      map_of ps f = Some (JObj pd) \<and> map_of pd ''multi_select'' = Some (JObj k) \<and>
      map_of k ''options'' = Some (JArr (map JObj os))"
    using that by (simp add: get_tag_options_def properties_def declared_option_names_objs)
  have D: "get_status_options s =
        (Inr (filter truthy
          (map (\<lambda>ob. case map_of ob ''name'' of None \<Rightarrow> JNull | Some v \<Rightarrow> v) sos)), s1)"
    if a: "get_status_property_name s = (Inr (Some n), s1) \<and> n \<noteq> [] \<and>
      schema_data s = JObj sd \<and> map_of sd ''properties'' = Some (JObj ps) \<and>
      map_of ps n = Some (JObj qd) \<and> map_of qd ''status'' = Some (JObj ks) \<and>
      map_of ks ''options'' = Some (JArr (map JObj sos))"
  proof -
    from a have "schema_data s1 = schema_data s"
      by (auto simp: get_status_property_name_def split: option.splits sum.splits)
    with a show ?thesis
      by (simp add: get_status_options_def properties_def declared_option_names_objs)
  qed
  from A B C D show ?thesis by blast
qed


theorem options_skip_empty_names_witness:
  "get_status_options demo_schema =
     (Inr [JStr ''Todo'', JStr ''Done''],
      demo_schema\<lparr>cache_status_property_name := Some ''Status''\<rparr>) \<and>
   JStr [] \<notin> set [JStr ''Todo'', JStr ''Done''] \<and>
   get_tag_options demo_schema ''Tags'' = Inr [JStr ''urgent'']"
  using options_skip_empty_names [of demo_schema "[JStr ''Todo'', JStr ''Done'']"
      "demo_schema\<lparr>cache_status_property_name := Some ''Status''\<rparr>"
      "''Tags''" "[JStr ''urgent'']"
      "[(''properties'', JObj demo_properties)]" demo_properties
      "[(''type'', JStr ''multi_select''),
         (''multi_select'', JObj [(''options'', JArr (map JObj demo_tag_options))])]"
      "[(''options'', JArr (map JObj demo_tag_options))]" demo_tag_options
      "''Status''" "demo_schema\<lparr>cache_status_property_name := Some ''Status''\<rparr>"
      "[(''type'', JStr ''status''),
         (''status'', JObj [(''options'', JArr (map JObj demo_status_options))])]"
      "[(''options'', JArr (map JObj demo_status_options))]" demo_status_options]
  by (simp add: demo_schema_def demo_properties_def demo_tag_options_def
        demo_status_options_def DatabaseSchema_init_def get_status_property_name_def
        properties_def)

lemma schema_update_same:
  "cache_tag_property_names s = [] \<Longrightarrow> s\<lparr>cache_tag_property_names := []\<rparr> = s"
  by (cases s) simp

lemma get_status_property_name_Some:
  assumes "get_status_property_name s = (Inr (Some n), s1)"
  shows "s1 = s\<lparr>cache_status_property_name := Some n\<rparr>"
  using assms
  by (cases s) (auto simp: get_status_property_name_def split: option.splits sum.splits)

lemma get_status_property_name_None:
  assumes "get_status_property_name s = (Inr None, s1)"
  shows "s1 = s \<and> cache_status_property_name s = None"
  using assms
  by (auto simp: get_status_property_name_def split: option.splits sum.splits)

lemma get_tag_property_names_result:
  assumes "get_tag_property_names s = (Inr ts, s2)"
  shows "s2 = s\<lparr>cache_tag_property_names := ts\<rparr>"
  using assms
  by (cases s) (auto simp: get_tag_property_names_def split: if_splits sum.splits)

text \<open>
  Claim C2, as stated, fails: on a schema with no status field and no multi-select field,
  a first call of either lookup returns the negative result and leaves the object exactly
  as it was constructed, both cache fields still at their initial values, so the next
  call takes the scanning branch again.
\<close>

theorem negative_result_not_cached:
  "get_status_property_name plain_schema = (Inr None, plain_schema) \<and>
   cache_status_property_name plain_schema = None \<and>
   get_tag_property_names plain_schema = (Inr [], plain_schema) \<and>
   cache_tag_property_names plain_schema = [] \<and>
   plain_schema =
     DatabaseSchema_init ''db''
       (JObj [(''properties'', JObj [(''Name'', JObj [(''type'', JStr ''title'')])])])"
  by (simp add: plain_schema_def DatabaseSchema_init_def get_status_property_name_def
        get_tag_property_names_def properties_def)

text \<open>
  Claim C2, amended. Both lookups memoize a found result only. Once
  \<^verbatim>\<open>get_status_property_name\<close> has returned a name, and once
  \<^verbatim>\<open>get_tag_property_names\<close> has returned a non-empty list, the result is stored in
  the object, and every later call returns it whatever the schema document holds: the
  property map is not read again. An absent status field and an empty list of tag fields
  are not stored: the object is left as it was, its cache field still at the initial
  value, which does not tell "not yet computed" from "computed as absent or empty".
\<close>

theorem positive_result_cached:
  "(get_status_property_name s = (Inr (Some n), s1) \<longrightarrow>
      cache_status_property_name s1 = Some n \<and>
      (\<forall>d. get_status_property_name (s1\<lparr>schema_data := d\<rparr>) =
             (Inr (Some n), s1\<lparr>schema_data := d\<rparr>))) \<and>
   (get_tag_property_names s = (Inr (t # ts), s2) \<longrightarrow>
      cache_tag_property_names s2 = t # ts \<and>
      (\<forall>d. get_tag_property_names (s2\<lparr>schema_data := d\<rparr>) =
             (Inr (t # ts), s2\<lparr>schema_data := d\<rparr>))) \<and>
   (get_status_property_name s = (Inr None, s1) \<longrightarrow>
      s1 = s \<and> cache_status_property_name s1 = None) \<and>
   (get_tag_property_names s = (Inr [], s2) \<longrightarrow>
      s2 = s \<and> cache_tag_property_names s2 = [])"
proof -
  have A: "cache_status_property_name s1 = Some n \<and>
      (\<forall>d. get_status_property_name (s1\<lparr>schema_data := d\<rparr>) =
             (Inr (Some n), s1\<lparr>schema_data := d\<rparr>))"
    if "get_status_property_name s = (Inr (Some n), s1)"
  proof -
    from that have "s1 = s\<lparr>cache_status_property_name := Some n\<rparr>"
      by (rule get_status_property_name_Some)
    then show ?thesis by (simp add: get_status_property_name_def)
  qed
  have B: "cache_tag_property_names s2 = t # ts \<and>
      (\<forall>d. get_tag_property_names (s2\<lparr>schema_data := d\<rparr>) =
             (Inr (t # ts), s2\<lparr>schema_data := d\<rparr>))"
    if "get_tag_property_names s = (Inr (t # ts), s2)"
  proof -
    from that have "s2 = s\<lparr>cache_tag_property_names := t # ts\<rparr>"
      by (rule get_tag_property_names_result)
    then show ?thesis by (simp add: get_tag_property_names_def)
  qed
  have C: "s1 = s \<and> cache_status_property_name s1 = None"
    if "get_status_property_name s = (Inr None, s1)"
    using get_status_property_name_None [OF that] by simp
  have D: "s2 = s \<and> cache_tag_property_names s2 = []"
    if "get_tag_property_names s = (Inr [], s2)"
  proof -
    from that have e: "s2 = s\<lparr>cache_tag_property_names := []\<rparr>"
      by (rule get_tag_property_names_result)
    from that have "cache_tag_property_names s = []"
      by (auto simp: get_tag_property_names_def split: if_splits)
    with e show ?thesis by (simp add: schema_update_same)
  qed
  from A B C D show ?thesis by blast
qed


theorem positive_result_cached_witness:
  "get_status_property_name demo_schema =
     (Inr (Some ''Status''), demo_schema\<lparr>cache_status_property_name := Some ''Status''\<rparr>) \<and>
   (\<forall>d. get_status_property_name
          (demo_schema\<lparr>cache_status_property_name := Some ''Status'', schema_data := d\<rparr>) =
        (Inr (Some ''Status''),
         demo_schema\<lparr>cache_status_property_name := Some ''Status'', schema_data := d\<rparr>)) \<and>
   get_tag_property_names demo_schema =
     (Inr [''Tags''], demo_schema\<lparr>cache_tag_property_names := [''Tags'']\<rparr>) \<and>
   (\<forall>d. get_tag_property_names
          (demo_schema\<lparr>cache_tag_property_names := [''Tags''], schema_data := d\<rparr>) =
        (Inr [''Tags''],
         demo_schema\<lparr>cache_tag_property_names := [''Tags''], schema_data := d\<rparr>)) \<and>
   get_status_property_name plain_schema = (Inr None, plain_schema) \<and>
   get_tag_property_names plain_schema = (Inr [], plain_schema)"
proof -
  have a: "get_status_property_name demo_schema =
     (Inr (Some ''Status''), demo_schema\<lparr>cache_status_property_name := Some ''Status''\<rparr>)"
    by (simp add: demo_schema_def demo_properties_def DatabaseSchema_init_def
          get_status_property_name_def properties_def)
  have b: "get_tag_property_names demo_schema =
     (Inr [''Tags''], demo_schema\<lparr>cache_tag_property_names := [''Tags'']\<rparr>)"
    by (simp add: demo_schema_def demo_properties_def DatabaseSchema_init_def
          get_tag_property_names_def properties_def)
  have c: "get_status_property_name plain_schema = (Inr None, plain_schema)"
    by (simp add: plain_schema_def DatabaseSchema_init_def get_status_property_name_def
          properties_def)
  have d: "get_tag_property_names plain_schema = (Inr [], plain_schema)"
    by (simp add: plain_schema_def DatabaseSchema_init_def get_tag_property_names_def
          properties_def)
  from a b c d show ?thesis
    using positive_result_cached [of demo_schema "''Status''"
        "demo_schema\<lparr>cache_status_property_name := Some ''Status''\<rparr>" "''Tags''" "[]"
        "demo_schema\<lparr>cache_tag_property_names := [''Tags'']\<rparr>"]
      positive_result_cached [of plain_schema "[]" plain_schema "[]" "[]" plain_schema]
    by simp
qed


section \<open>Properties of the schema cache\<close>

lemma get_database_schema_hit:
  "schemas w db = Some s \<Longrightarrow> get_database_schema c db w = (Inr s, w)"
  by (simp add: get_database_schema_def SchemaCache_get_def)

lemma get_database_schema_miss:
  assumes "schemas w db = None" and "get_database c (calls w) db = Inr data"
  shows "get_database_schema c db w =
           (Inr (DatabaseSchema_init db data),
            w\<lparr>calls := calls w @ [GetDatabase db],
              schemas := (schemas w)(db \<mapsto> DatabaseSchema_init db data)\<rparr>)"
  using assms
  by (simp add: get_database_schema_def SchemaCache_get_def SchemaCache_set_def Let_def)

lemma resolutions_hit:
  "schemas w db = Some s \<Longrightarrow> resolutions n c db w = (replicate n (Inr s), w)"
  by (induction n) (simp_all add: get_database_schema_hit)

text \<open>
  Claim C7. A resolution of an identifier that has an entry in the cache returns the
  stored model and leaves the process state as it is: no call is made. From a state
  without an entry, when the fetch returns a schema document, any number \<open>n + 1\<close> of
  resolutions of the identifier, one after the other, make exactly one call, the fetch
  of the first: the calls afterwards are the calls before and that one fetch, every
  resolution returns the one model built from its answer, and the cache holds that model.
  (A resolution whose fetch raises stores nothing and returns no model.)
\<close>

theorem resolve_once:
  "(schemas w db = Some s \<longrightarrow> get_database_schema c db w = (Inr s, w)) \<and>
   (schemas w db = None \<and> get_database c (calls w) db = Inr data \<longrightarrow>
      resolutions (Suc n) c db w =
        (replicate (Suc n) (Inr (DatabaseSchema_init db data)),
         w\<lparr>calls := calls w @ [GetDatabase db],
           schemas := (schemas w)(db \<mapsto> DatabaseSchema_init db data)\<rparr>))"
proof -
  have A: "get_database_schema c db w = (Inr s, w)" if "schemas w db = Some s"
    using that by (rule get_database_schema_hit)
  have B: "resolutions (Suc n) c db w =
        (replicate (Suc n) (Inr (DatabaseSchema_init db data)),
         w\<lparr>calls := calls w @ [GetDatabase db],
           schemas := (schemas w)(db \<mapsto> DatabaseSchema_init db data)\<rparr>)"
    if "schemas w db = None \<and> get_database c (calls w) db = Inr data"
  proof -
    let ?s = "DatabaseSchema_init db data"
    let ?w1 = "w\<lparr>calls := calls w @ [GetDatabase db], schemas := (schemas w)(db \<mapsto> ?s)\<rparr>"
    from that have first: "get_database_schema c db w = (Inr ?s, ?w1)"
      by (simp add: get_database_schema_miss)
    have "schemas ?w1 db = Some ?s" by simp
    then have "resolutions n c db ?w1 = (replicate n (Inr ?s), ?w1)"
      by (rule resolutions_hit)
    with first show ?thesis by simp
  qed
  from A B show ?thesis by blast
qed

theorem resolve_once_witness:
  "resolutions (Suc (Suc 0)) demo_client ''db'' fresh_world =
     ([Inr demo_schema, Inr demo_schema],
      \<lparr>schemas = [''db'' \<mapsto> demo_schema], calls = [GetDatabase ''db'']\<rparr>) \<and>
   get_database_schema demo_client ''db''
       \<lparr>schemas = [''db'' \<mapsto> demo_schema], calls = [GetDatabase ''db'']\<rparr> =
     (Inr demo_schema, \<lparr>schemas = [''db'' \<mapsto> demo_schema], calls = [GetDatabase ''db'']\<rparr>)"
  using resolve_once [of fresh_world "''db''" demo_schema demo_client
      "JObj [(''properties'', JObj demo_properties)]" "Suc 0"]
    resolve_once [of "\<lparr>schemas = [''db'' \<mapsto> demo_schema], calls = [GetDatabase ''db'']\<rparr>"
      "''db''" demo_schema demo_client]
  by (simp add: fresh_world_def demo_client_def demo_schema_def)


section \<open>Properties of the status update\<close>

lemma get_status_property_name_again:
  assumes "get_status_property_name s = (Inr (Some n), s1)"
  shows "get_status_property_name s1 = (Inr (Some n), s1)"
proof -
  from assms have "s1 = s\<lparr>cache_status_property_name := Some n\<rparr>"
    by (rule get_status_property_name_Some)
  then show ?thesis by (simp add: get_status_property_name_def)
qed

lemma get_status_options_again:
  assumes "get_status_property_name s = (Inr (Some n), s1)"
  shows "get_status_options s1 = get_status_options s"
  using assms get_status_property_name_again [OF assms]
  by (simp add: get_status_options_def)

lemma get_status_options_nonempty:
  assumes "get_status_options s = (Inr opts, s2)" and "opts \<noteq> []"
  shows "\<exists>n. n \<noteq> [] \<and> get_status_property_name s = (Inr (Some n), s2)"
proof (cases "get_status_property_name s")
  case (Pair r s1)
  show ?thesis
  proof (cases r)
    case (Inl e)
    with Pair assms show ?thesis by (simp add: get_status_options_def)
  next
    case (Inr nm)
    show ?thesis
    proof (cases nm)
      case None
      with Pair Inr assms show ?thesis by (simp add: get_status_options_def)
    next
      case (Some n)
      with Pair Inr assms show ?thesis
        by (auto simp: get_status_options_def split: if_splits sum.splits)
    qed
  qed
qed

lemma calls_get_database_schema:
  assumes "get_database_schema c db w = (r, w1)"
  shows "calls w1 = calls w @ (case schemas w db of None \<Rightarrow> [GetDatabase db] | Some s \<Rightarrow> [])"
  using assms
  by (auto simp: get_database_schema_def SchemaCache_get_def SchemaCache_set_def Let_def
        split: option.splits sum.splits)

lemma calls_SchemaCache_set: "calls (SchemaCache_set w db s) = calls w"
  by (simp add: SchemaCache_set_def)

text \<open>
  Claim C3, as stated, fails: the schema below has a status field that declares no
  options, the value \<^verbatim>\<open>Bogus\<close> is not among them, and the command calls the remote
  update and reports success. The guard \<^verbatim>\<open>if status_options and ...\<close> checks the value
  only against a non-empty list.
\<close>

theorem empty_options_not_checked:
  "fst (get_status_property_name (DatabaseSchema_init ''db'' no_options_data)) =
     Inr (Some ''Status'') \<and>
   fst (get_status_options (DatabaseSchema_init ''db'' no_options_data)) = Inr [] \<and>
   update_status no_options_client ''db'' ''page'' ''Bogus'' fresh_world =
     (Success (JObj [(''id'', JStr ''page''), (''status'', JStr ''Bogus''),
                     (''property'', JStr ''Status'')]),
      \<lparr>schemas = [''db'' \<mapsto>
          (DatabaseSchema_init ''db'' no_options_data)
            \<lparr>cache_status_property_name := Some ''Status''\<rparr>],
       calls = [GetDatabase ''db'',
         UpdatePage ''page''
           (JObj [(''Status'', JObj [(''status'', JObj [(''name'', JStr ''Bogus'')])])])]\<rparr>)"
  by (simp add: update_status_def get_database_schema_def SchemaCache_get_def
        SchemaCache_set_def Let_def fresh_world_def no_options_client_def no_options_data_def
        DatabaseSchema_init_def get_status_property_name_def get_status_options_def
        declared_option_names_def properties_def)

text \<open>
  Claim C3, amended. When the schema of the database has a status field whose list of
  declared options, as \<^verbatim>\<open>get_status_options\<close> returns it, is not empty, the update
  of the status with a value that is not in the list reports an error that carries the
  invalid value and the whole list, and makes no update call: the only call of the command
  is the fetch of the schema, where the cache had no entry.
\<close>

theorem invalid_status_rejected:
  assumes res: "get_database_schema c db w = (Inr schema, w1)"
    and opts: "get_status_options schema = (Inr status_options, schema2)"
    and ne: "status_options \<noteq> []"
    and inv: "JStr status \<notin> set status_options"
  shows "fst (update_status c db item_id status w) =
           Failure (JObj [(''message'', JStr (''Invalid status '' @ [CHR 0x27] @ status @ [CHR 0x27])),
                          (''available_options'', JArr status_options)]) \<and>
         calls (snd (update_status c db item_id status w)) =
           calls w @ (case schemas w db of None \<Rightarrow> [GetDatabase db] | Some s \<Rightarrow> [])"
proof -
  from get_status_options_nonempty [OF opts ne] obtain n
    where n: "n \<noteq> []" "get_status_property_name schema = (Inr (Some n), schema2)" by blast
  from get_status_options_again [OF n(2)] opts
  have again: "get_status_options schema2 = (Inr status_options, schema2)" by simp
  from res n again ne inv
  have u: "update_status c db item_id status w =
      (Failure (JObj [(''message'', JStr (''Invalid status '' @ [CHR 0x27] @ status @ [CHR 0x27])),
                      (''available_options'', JArr status_options)]),
       SchemaCache_set (SchemaCache_set w1 db schema2) db schema2)"
    by (simp add: update_status_def Let_def)
  from calls_get_database_schema [OF res] u show ?thesis
    by (simp add: calls_SchemaCache_set)
qed

theorem invalid_status_rejected_witness:
  "fst (update_status demo_client ''db'' ''page'' ''Bogus'' fresh_world) =
     Failure (JObj [(''message'', JStr (''Invalid status '' @ [CHR 0x27] @ ''Bogus'' @ [CHR 0x27])),
                    (''available_options'', JArr [JStr ''Todo'', JStr ''Done''])]) \<and>
   calls (snd (update_status demo_client ''db'' ''page'' ''Bogus'' fresh_world)) =
     [GetDatabase ''db'']"
proof -
  have a: "get_database_schema demo_client ''db'' fresh_world =
      (Inr demo_schema, \<lparr>schemas = [''db'' \<mapsto> demo_schema], calls = [GetDatabase ''db'']\<rparr>)"
    by (simp add: get_database_schema_def SchemaCache_get_def SchemaCache_set_def Let_def
          fresh_world_def demo_client_def demo_schema_def)
  have b: "get_status_options demo_schema =
      (Inr [JStr ''Todo'', JStr ''Done''],
       demo_schema\<lparr>cache_status_property_name := Some ''Status''\<rparr>)"
    by (simp add: demo_schema_def demo_properties_def demo_status_options_def
        DatabaseSchema_init_def get_status_property_name_def get_status_options_def
        declared_option_names_def properties_def)
  from invalid_status_rejected [OF a b, of "''Bogus''" "''page''"] show ?thesis
    by (simp add: fresh_world_def)
qed


section \<open>Properties of the query filter\<close>

lemma split_on_examples:
  "split_on CHR '','' '',a,,'' = ['''', ''a'', '''', '''']"
  "split_on CHR '','' [] = [[]]"
  "map ascii_strip (split_on CHR '','' ''a, b'') = [''a'', ''b'']"
  "split_first CHR ''='' ''k = v=w'' = (''k '', '' v=w'')"
  "ascii_lower ''PrioRity 1'' = ''priority 1''"
  by (simp_all add: split_first_def ascii_strip_def ascii_space_def ascii_lower_def)

lemma split_on_nonempty: "split_on c s \<noteq> []"
  by (induction s) (auto split: list.splits)

lemma length_split_on: "length (split_on c s) = Suc (count_list s c)"
proof (induction s)
  case Nil
  then show ?case by simp
next
  case (Cons x xs)
  then show ?case using split_on_nonempty [of c xs]
    by (cases "split_on c xs") auto
qed

lemma split_on_no_sep: "t \<in> set (split_on c s) \<Longrightarrow> c \<notin> set t"
proof (induction s arbitrary: t)
  case Nil
  then show ?case by simp
next
  case (Cons x xs)
  then show ?case using split_on_nonempty [of c xs]
    by (cases "split_on c xs") (auto split: if_splits)
qed


lemma scan_tags_objs:
  "scan_tags (map (\<lambda>nd. (fst nd, JObj (snd nd))) props) =
     Inr (map fst (filter (\<lambda>nd. map_of (snd nd) ''type'' = Some (JStr ''multi_select'')) props))"
proof (induction props)
  case Nil
  then show ?case by simp
next
  case (Cons nd props)
  then show ?case
    by (cases nd; cases "map_of (snd nd) ''type''") auto
qed

lemma tags_branch_some:
  assumes "tags \<noteq> []" and "get_tag_property_names schema = (Inr (tag_prop # others), s1)"
  shows "tags_branch strip schema (Some tags) filter_obj =
     (Inr (Some (case map strip (split_on CHR '','' tags) of
                   [tag] \<Rightarrow> leaf tag_prop ''multi_select'' ''contains'' tag
                 | tag_list \<Rightarrow>
                     JObj [(''and'',
                       JArr (map (leaf tag_prop ''multi_select'' ''contains'') tag_list))])),
      s1)"
proof (cases "map strip (split_on CHR '','' tags)")
  case Nil
  with split_on_nonempty [of "CHR '',''" tags] show ?thesis by simp
next
  case (Cons t ts)
  with assms show ?thesis
    by (cases ts) (simp_all add: tags_branch_def Let_def)
qed

lemma tags_branch_none:
  assumes "get_tag_property_names schema = (Inr [], s1)"
  shows "tags_branch strip schema (Some tags) filter_obj = (Inr filter_obj, s1)"
proof -
  from assms have "s1 = schema"
    by (cases schema)
      (auto simp: get_tag_property_names_def split: if_splits sum.splits)
  with assms show ?thesis by (simp add: tags_branch_def)
qed

text \<open>
  Claim C4. For a non-empty tags argument and a schema whose lookup of the tag fields
  returns at least one name, the tags block splits the argument at the commas, trims
  every piece with \<^verbatim>\<open>strip\<close>, and uses the first name: one piece gives the single
  leaf \<^verbatim>\<open>multi_select contains\<close> on that field, two or more give the dictionary
  \<^verbatim>\<open>{"and": [...]}\<close> with one such leaf per piece, all on that field, in the order of
  the pieces. Where the lookup returns no name, the block leaves the filter as it was and
  raises nothing. The pieces are one more than the commas of the argument. On a freshly
  built schema object whose property definitions are dictionaries, the names the lookup
  returns are those of the \<^verbatim>\<open>multi_select\<close> fields in the schema's order, so the
  field used is the first of them.
\<close>

theorem tags_branch_shape:
  "(tags \<noteq> [] \<and> get_tag_property_names schema = (Inr (tag_prop # others), s1) \<longrightarrow>
      tags_branch strip schema (Some tags) filter_obj =
        (Inr (Some (case map strip (split_on CHR '','' tags) of
                      [tag] \<Rightarrow> leaf tag_prop ''multi_select'' ''contains'' tag
                    | tag_list \<Rightarrow>
                        JObj [(''and'',
                          JArr (map (leaf tag_prop ''multi_select'' ''contains'') tag_list))])),
         s1)) \<and>
   (get_tag_property_names schema = (Inr [], s1) \<longrightarrow>
      tags_branch strip schema (Some tags) filter_obj = (Inr filter_obj, s1)) \<and>
   length (map strip (split_on CHR '','' tags)) = Suc (count_list tags CHR '','') \<and>
   (map_of sd ''properties'' = Some (JObj (map (\<lambda>nd. (fst nd, JObj (snd nd))) props)) \<longrightarrow>
      fst (get_tag_property_names (DatabaseSchema_init db (JObj sd))) =
        Inr (map fst
          (filter (\<lambda>nd. map_of (snd nd) ''type'' = Some (JStr ''multi_select'')) props)))"
proof -
  have A: "tags_branch strip schema (Some tags) filter_obj =
        (Inr (Some (case map strip (split_on CHR '','' tags) of
                      [tag] \<Rightarrow> leaf tag_prop ''multi_select'' ''contains'' tag
                    | tag_list \<Rightarrow>
                        JObj [(''and'',
                          JArr (map (leaf tag_prop ''multi_select'' ''contains'') tag_list))])),
         s1)"
    if "tags \<noteq> [] \<and> get_tag_property_names schema = (Inr (tag_prop # others), s1)"
    using that by (simp add: tags_branch_some)
  have B: "tags_branch strip schema (Some tags) filter_obj = (Inr filter_obj, s1)"
    if "get_tag_property_names schema = (Inr [], s1)"
    using that by (rule tags_branch_none)
  have C: "length (map strip (split_on CHR '','' tags)) = Suc (count_list tags CHR '','')"
    by (simp add: length_split_on)
  have D: "fst (get_tag_property_names (DatabaseSchema_init db (JObj sd))) =
        Inr (map fst
          (filter (\<lambda>nd. map_of (snd nd) ''type'' = Some (JStr ''multi_select'')) props))"
    if "map_of sd ''properties'' = Some (JObj (map (\<lambda>nd. (fst nd, JObj (snd nd))) props))"
    using that
    by (simp add: get_tag_property_names_def DatabaseSchema_init_def properties_def
          scan_tags_objs)
  from A B C D show ?thesis by blast
qed


theorem tags_branch_shape_witness:
  "tags_branch ascii_strip demo_schema (Some ''a, b'') None =
     (Inr (Some (JObj [(''and'', JArr
        [JObj [(''property'', JStr ''Tags''), (''multi_select'', JObj [(''contains'', JStr ''a'')])],
         JObj [(''property'', JStr ''Tags''), (''multi_select'', JObj [(''contains'', JStr ''b'')])]])])),
      demo_schema\<lparr>cache_tag_property_names := [''Tags'']\<rparr>) \<and>
   tags_branch ascii_strip demo_schema (Some ''a'') None =
     (Inr (Some (JObj [(''property'', JStr ''Tags''),
        (''multi_select'', JObj [(''contains'', JStr ''a'')])])),
      demo_schema\<lparr>cache_tag_property_names := [''Tags'']\<rparr>) \<and>
   tags_branch ascii_strip plain_schema (Some ''a'') None = (Inr None, plain_schema) \<and>
   fst (get_tag_property_names demo_schema) = Inr [''Tags'']"
proof -
  have a: "get_tag_property_names demo_schema =
     (Inr [''Tags''], demo_schema\<lparr>cache_tag_property_names := [''Tags'']\<rparr>)"
    by (simp add: demo_schema_def demo_properties_def DatabaseSchema_init_def
          get_tag_property_names_def properties_def)
  have b: "get_tag_property_names plain_schema = (Inr [], plain_schema)"
    by (simp add: plain_schema_def DatabaseSchema_init_def get_tag_property_names_def
          properties_def)
  from a b show ?thesis
    using tags_branch_shape [of "''a, b''" demo_schema "''Tags''" "[]"
        "demo_schema\<lparr>cache_tag_property_names := [''Tags'']\<rparr>" ascii_strip None]
      tags_branch_shape [of "''a''" demo_schema "''Tags''" "[]"
        "demo_schema\<lparr>cache_tag_property_names := [''Tags'']\<rparr>" ascii_strip None]
      tags_branch_shape [of "''a''" plain_schema "''Tags''" "[]" plain_schema ascii_strip None]
    by (simp add: ascii_strip_def ascii_space_def leaf_def)
qed

lemma properties_cache_status:
  "properties (s\<lparr>cache_status_property_name := x\<rparr>) = properties s"
  by (simp add: properties_def)

lemma properties_cache_tags:
  "properties (s\<lparr>cache_tag_property_names := x\<rparr>) = properties s"
  by (simp add: properties_def)

lemma get_status_property_name_data:
  "get_status_property_name s = (r, s1) \<Longrightarrow> schema_data s1 = schema_data s"
  by (auto simp: get_status_property_name_def split: option.splits sum.splits)

lemma get_tag_property_names_data:
  "get_tag_property_names s = (r, s1) \<Longrightarrow> schema_data s1 = schema_data s"
  by (auto simp: get_tag_property_names_def split: if_splits sum.splits)

lemma status_branch_data:
  assumes "status_branch s status fo = (r, s1)"
  shows "schema_data s1 = schema_data s"
proof (cases "status = None \<or> status = Some []")
  case True
  with assms show ?thesis by (simp add: status_branch_def)
next
  case False
  obtain r0 s0 where g: "get_status_property_name s = (r0, s0)"
    by (cases "get_status_property_name s")
  with False assms have "s1 = s0"
    by (cases r0) (auto simp: status_branch_def split: if_splits)
  with g show ?thesis by (simp add: get_status_property_name_data)
qed

lemma tags_branch_data:
  assumes "tags_branch strip s tags fo = (r, s1)"
  shows "schema_data s1 = schema_data s"
proof (cases "tags = None \<or> tags = Some []")
  case True
  with assms show ?thesis by (simp add: tags_branch_def)
next
  case False
  obtain r0 s0 where g: "get_tag_property_names s = (r0, s0)"
    by (cases "get_tag_property_names s")
  with False assms have "s1 = s0"
    by (cases r0) (auto simp: tags_branch_def Let_def split: if_splits list.splits)
  with g show ?thesis by (simp add: get_tag_property_names_data)
qed

lemma find_property_by_name_data:
  "schema_data s' = schema_data s \<Longrightarrow>
     find_property_by_name lower s' name = find_property_by_name lower s name"
  by (simp add: find_property_by_name_def properties_def)

lemma generic_branch_data:
  "schema_data s' = schema_data s \<Longrightarrow>
     generic_branch lower strip s' filter_arg fo = generic_branch lower strip s filter_arg fo"
  by (simp add: generic_branch_def find_property_by_name_data [of s' s])

lemma query_filter_generic:
  assumes "status_branch schema status None = (Inr f1, s1)"
    and "tags_branch strip s1 tags f1 = (Inr f2, s2)"
  shows "query_filter lower strip schema status tags filter_arg =
           (generic_branch lower strip schema filter_arg f2, s2)"
proof -
  from assms have "schema_data s2 = schema_data schema"
    by (simp add: status_branch_data tags_branch_data)
  then have "generic_branch lower strip s2 filter_arg f2 =
      generic_branch lower strip schema filter_arg f2"
    by (rule generic_branch_data)
  with assms show ?thesis by (simp add: query_filter_def)
qed

lemma generic_branch_absent: "generic_branch lower strip s None fo = Inr fo"
  by (simp add: generic_branch_def)

lemma generic_branch_no_eq:
  "CHR ''='' \<notin> set f \<Longrightarrow> generic_branch lower strip s (Some f) fo = Inr fo"
  by (simp add: generic_branch_def)

lemma find_lower_missing:
  "nl \<notin> lower ` fst ` set items \<Longrightarrow> find_lower lower nl items = JNull"
  by (induction items) auto

lemma generic_branch_not_found:
  assumes "properties s = Inr (JObj ps)"
    and "lower (strip (fst (split_first CHR ''='' f))) \<notin> lower ` fst ` set ps"
  shows "generic_branch lower strip s (Some f) fo = Inr fo"
  using assms
  by (simp add: generic_branch_def Let_def find_property_by_name_def find_lower_missing)

lemma query_filter_fallback:
  assumes "generic_branch lower strip schema (Some f) = generic_branch lower strip schema None"
  shows "query_filter lower strip schema status tags (Some f) =
           query_filter lower strip schema status tags None"
proof -
  have g: "generic_branch lower strip s' (Some f) fo = generic_branch lower strip s' None fo"
    if "schema_data s' = schema_data schema" for s' fo
  proof -
    from assms have "generic_branch lower strip schema (Some f) fo =
        generic_branch lower strip schema None fo" by simp
    with that show ?thesis by (simp add: generic_branch_data [of s' schema])
  qed
  obtain r1 s1 where b1: "status_branch schema status None = (r1, s1)"
    by (cases "status_branch schema status None")
  show ?thesis
  proof (cases r1)
    case (Inl e)
    with b1 show ?thesis by (simp add: query_filter_def)
  next
    case (Inr f1)
    obtain r2 s2 where b2: "tags_branch strip s1 tags f1 = (r2, s2)"
      by (cases "tags_branch strip s1 tags f1")
    show ?thesis
    proof (cases r2)
      case (Inl e)
      with b1 Inr b2 show ?thesis by (simp add: query_filter_def)
    next
      case f2: (Inr f2)
      from b1 b2 have "schema_data s2 = schema_data schema"
        by (simp add: status_branch_data tags_branch_data)
      from g [OF this] b1 Inr b2 f2 show ?thesis by (simp add: query_filter_def)
    qed
  qed
qed

text \<open>
  Claim C5. A filter string without \<^verbatim>\<open>=\<close>, and a filter string whose key (the text
  before the first \<^verbatim>\<open>=\<close>, trimmed) matches no field name of the schema when both are
  lowered, make the generic block return the filter it was given, without an exception; the
  filter of the whole query is then the one built without the filter argument, which is
  what the status and tags blocks produced.
\<close>

theorem generic_branch_fallback:
  "(CHR ''='' \<notin> set f \<longrightarrow>
      generic_branch lower strip schema (Some f) filter_obj = Inr filter_obj \<and>
      query_filter lower strip schema status tags (Some f) =
        query_filter lower strip schema status tags None) \<and>
   (properties schema = Inr (JObj ps) \<and>
    lower (strip (fst (split_first CHR ''='' f))) \<notin> lower ` fst ` set ps \<longrightarrow>
      generic_branch lower strip schema (Some f) filter_obj = Inr filter_obj \<and>
      query_filter lower strip schema status tags (Some f) =
        query_filter lower strip schema status tags None) \<and>
   (status_branch schema status None = (Inr f1, s1) \<and> tags_branch strip s1 tags f1 = (Inr f2, s2) \<longrightarrow>
      query_filter lower strip schema status tags None = (Inr f2, s2))"
proof -
  have A: "generic_branch lower strip schema (Some f) filter_obj = Inr filter_obj \<and>
      query_filter lower strip schema status tags (Some f) =
        query_filter lower strip schema status tags None"
    if "CHR ''='' \<notin> set f"
  proof -
    from that have "generic_branch lower strip schema (Some f) =
        generic_branch lower strip schema None"
      by (simp add: generic_branch_no_eq generic_branch_absent fun_eq_iff)
    then have "query_filter lower strip schema status tags (Some f) =
        query_filter lower strip schema status tags None"
      by (rule query_filter_fallback)
    with that show ?thesis by (simp add: generic_branch_no_eq)
  qed
  have B: "generic_branch lower strip schema (Some f) filter_obj = Inr filter_obj \<and>
      query_filter lower strip schema status tags (Some f) =
        query_filter lower strip schema status tags None"
    if "properties schema = Inr (JObj ps) \<and>
      lower (strip (fst (split_first CHR ''='' f))) \<notin> lower ` fst ` set ps"
  proof -
    from that have nf: "generic_branch lower strip schema (Some f) fo = Inr fo" for fo
      by (simp add: generic_branch_not_found)
    then have "generic_branch lower strip schema (Some f) =
        generic_branch lower strip schema None"
      by (simp add: generic_branch_absent fun_eq_iff)
    then have "query_filter lower strip schema status tags (Some f) =
        query_filter lower strip schema status tags None"
      by (rule query_filter_fallback)
    with nf show ?thesis by simp
  qed
  have C: "query_filter lower strip schema status tags None = (Inr f2, s2)"
    if "status_branch schema status None = (Inr f1, s1) \<and>
      tags_branch strip s1 tags f1 = (Inr f2, s2)"
    using that by (simp add: query_filter_def generic_branch_absent)
  from A B C show ?thesis by blast
qed


theorem generic_branch_fallback_witness:
  "query_filter ascii_lower ascii_strip demo_schema (Some ''Todo'') (Some ''a'') (Some ''urgent'') =
     (Inr (Some (JObj [(''property'', JStr ''Tags''),
        (''multi_select'', JObj [(''contains'', JStr ''a'')])])),
      demo_schema\<lparr>cache_status_property_name := Some ''Status'',
        cache_tag_property_names := [''Tags'']\<rparr>) \<and>
   query_filter ascii_lower ascii_strip demo_schema (Some ''Todo'') (Some ''a'') (Some ''Owner=me'') =
     (Inr (Some (JObj [(''property'', JStr ''Tags''),
        (''multi_select'', JObj [(''contains'', JStr ''a'')])])),
      demo_schema\<lparr>cache_status_property_name := Some ''Status'',
        cache_tag_property_names := [''Tags'']\<rparr>) \<and>
   generic_branch ascii_lower ascii_strip demo_schema (Some ''Owner=me'') None = Inr None"
proof -
  have a: "status_branch demo_schema (Some ''Todo'') None =
      (Inr (Some (leaf ''Status'' ''status'' ''equals'' ''Todo'')),
       demo_schema\<lparr>cache_status_property_name := Some ''Status''\<rparr>)"
    by (simp add: status_branch_def demo_schema_def demo_properties_def
          DatabaseSchema_init_def get_status_property_name_def properties_def)
  have b: "tags_branch ascii_strip (demo_schema\<lparr>cache_status_property_name := Some ''Status''\<rparr>)
        (Some ''a'') (Some (leaf ''Status'' ''status'' ''equals'' ''Todo'')) =
      (Inr (Some (leaf ''Tags'' ''multi_select'' ''contains'' ''a'')),
       demo_schema\<lparr>cache_status_property_name := Some ''Status'',
         cache_tag_property_names := [''Tags'']\<rparr>)"
    by (simp add: tags_branch_def demo_schema_def demo_properties_def
          DatabaseSchema_init_def get_tag_property_names_def properties_def
          ascii_strip_def ascii_space_def)
  have c: "properties demo_schema = Inr (JObj demo_properties)"
    by (simp add: demo_schema_def DatabaseSchema_init_def properties_def)
  have d: "ascii_lower (ascii_strip (fst (split_first CHR ''='' ''Owner=me'')))
      \<notin> ascii_lower ` fst ` set demo_properties"
    by (simp add: demo_properties_def split_first_def ascii_strip_def ascii_space_def
          ascii_lower_def)
  from a b c d show ?thesis
    using generic_branch_fallback [of "''urgent''" ascii_lower ascii_strip demo_schema None
        "Some ''Todo''" "Some ''a''" demo_properties
        "Some (leaf ''Status'' ''status'' ''equals'' ''Todo'')"
        "demo_schema\<lparr>cache_status_property_name := Some ''Status''\<rparr>"
        "Some (leaf ''Tags'' ''multi_select'' ''contains'' ''a'')"
        "demo_schema\<lparr>cache_status_property_name := Some ''Status'',
           cache_tag_property_names := [''Tags'']\<rparr>"]
      generic_branch_fallback [of "''Owner=me''" ascii_lower ascii_strip demo_schema None
        "Some ''Todo''" "Some ''a''" demo_properties
        "Some (leaf ''Status'' ''status'' ''equals'' ''Todo'')"
        "demo_schema\<lparr>cache_status_property_name := Some ''Status''\<rparr>"
        "Some (leaf ''Tags'' ''multi_select'' ''contains'' ''a'')"
        "demo_schema\<lparr>cache_status_property_name := Some ''Status'',
           cache_tag_property_names := [''Tags'']\<rparr>"]
    by (simp add: leaf_def)
qed

lemma get_status_property_name_tags:
  "get_status_property_name s = (r, s1) \<Longrightarrow>
     cache_tag_property_names s1 = cache_tag_property_names s"
  by (auto simp: get_status_property_name_def split: option.splits sum.splits)

lemma get_tag_property_names_fst:
  assumes "schema_data s' = schema_data s"
    and "cache_tag_property_names s' = cache_tag_property_names s"
  shows "fst (get_tag_property_names s') = fst (get_tag_property_names s)"
  using assms
  by (simp add: get_tag_property_names_def properties_def split: sum.splits)

lemma status_branch_ok:
  assumes "fst (get_status_property_name s) = Inr nm"
  shows "\<exists>f1 s1. status_branch s status fo = (Inr f1, s1) \<and>
           schema_data s1 = schema_data s \<and>
           cache_tag_property_names s1 = cache_tag_property_names s"
proof -
  obtain s0 where g: "get_status_property_name s = (Inr nm, s0)"
    using assms by (cases "get_status_property_name s") simp
  from g have "schema_data s0 = schema_data s"
    and "cache_tag_property_names s0 = cache_tag_property_names s"
    by (simp_all add: get_status_property_name_data get_status_property_name_tags)
  with g show ?thesis by (simp add: status_branch_def)
qed

lemma tags_branch_ok:
  assumes "fst (get_tag_property_names s) = Inr names"
  shows "\<exists>f2 s2. tags_branch strip s tags fo = (Inr f2, s2)"
proof -
  obtain s0 where g: "get_tag_property_names s = (Inr names, s0)"
    using assms by (cases "get_tag_property_names s") simp
  then show ?thesis by (cases names) (simp_all add: tags_branch_def Let_def)
qed

lemma generic_branch_resolved:
  assumes "CHR ''='' \<in> set f"
    and "find_property_by_name lower s (strip (fst (split_first CHR ''='' f))) = Inr (JObj pd)"
    and "pd \<noteq> []"
  shows "generic_branch lower strip s (Some f) fo =
     Inr (Some
       (if map_of pd ''type'' = Some (JStr ''status'') then
          leaf (strip (fst (split_first CHR ''='' f))) ''status'' ''equals''
            (strip (snd (split_first CHR ''='' f)))
        else if map_of pd ''type'' = Some (JStr ''select'') then
          leaf (strip (fst (split_first CHR ''='' f))) ''select'' ''equals''
            (strip (snd (split_first CHR ''='' f)))
        else if map_of pd ''type'' = Some (JStr ''multi_select'') then
          leaf (strip (fst (split_first CHR ''='' f))) ''multi_select'' ''contains''
            (strip (snd (split_first CHR ''='' f)))
        else
          leaf (strip (fst (split_first CHR ''='' f))) ''title'' ''equals''
            (strip (snd (split_first CHR ''='' f)))))"
proof -
  from assms(1) have "f \<noteq> []" by auto
  with assms show ?thesis
    by (cases "map_of pd ''type''") (simp_all add: generic_branch_def Let_def)
qed

text \<open>
  Claim C1. Take a schema in which the status lookup finds a field, the tag lookup finds at
  least one field, and the key of the generic argument resolves to a property definition
  (a non-empty dictionary, as \<^verbatim>\<open>if prop_def:\<close> requires). With a status argument, a
  tags argument and a generic argument containing \<^verbatim>\<open>=\<close> all supplied, the filter of
  the query is the single leaf of the generic block, chosen by the definition's type
  (\<^verbatim>\<open>status equals\<close>, \<^verbatim>\<open>select equals\<close>, \<^verbatim>\<open>multi_select contains\<close>, else
  \<^verbatim>\<open>title equals\<close>) on the key and the value as written: it is what the generic block
  alone builds from no filter, and the leaves of the status and tags blocks are gone.
\<close>

theorem generic_overrides:
  assumes eq: "CHR ''='' \<in> set f"
    and st: "fst (get_status_property_name schema) = Inr (Some status_prop)"
    and tg: "fst (get_tag_property_names schema) = Inr (tag_prop # others)"
    and found: "find_property_by_name lower schema (strip (fst (split_first CHR ''='' f))) =
                  Inr (JObj prop_def)"
    and ne: "prop_def \<noteq> []"
  shows "fst (query_filter lower strip schema (Some status) (Some tags) (Some f)) =
     Inr (Some
       (if map_of prop_def ''type'' = Some (JStr ''status'') then
          leaf (strip (fst (split_first CHR ''='' f))) ''status'' ''equals''
            (strip (snd (split_first CHR ''='' f)))
        else if map_of prop_def ''type'' = Some (JStr ''select'') then
          leaf (strip (fst (split_first CHR ''='' f))) ''select'' ''equals''
            (strip (snd (split_first CHR ''='' f)))
        else if map_of prop_def ''type'' = Some (JStr ''multi_select'') then
          leaf (strip (fst (split_first CHR ''='' f))) ''multi_select'' ''contains''
            (strip (snd (split_first CHR ''='' f)))
        else
          leaf (strip (fst (split_first CHR ''='' f))) ''title'' ''equals''
            (strip (snd (split_first CHR ''='' f))))) \<and>
    fst (query_filter lower strip schema (Some status) (Some tags) (Some f)) =
      generic_branch lower strip schema (Some f) None"
proof -
  from status_branch_ok [OF st] obtain f1 s1
    where b1: "status_branch schema (Some status) None = (Inr f1, s1)"
      and d1: "schema_data s1 = schema_data schema"
      and t1: "cache_tag_property_names s1 = cache_tag_property_names schema"
    by blast
  from get_tag_property_names_fst [OF d1 t1] tg
  have "fst (get_tag_property_names s1) = Inr (tag_prop # others)" by simp
  from tags_branch_ok [OF this] obtain f2 s2
    where b2: "tags_branch strip s1 (Some tags) f1 = (Inr f2, s2)" by blast
  from query_filter_generic [OF b1 b2]
  have q: "fst (query_filter lower strip schema (Some status) (Some tags) (Some f)) =
      generic_branch lower strip schema (Some f) f2" by simp
  from generic_branch_resolved [where strip = strip and lower = lower and fo = f2, OF eq found ne]
    generic_branch_resolved [where strip = strip and lower = lower and fo = None, OF eq found ne]
    q
  show ?thesis by simp
qed


theorem generic_overrides_witness:
  "fst (query_filter ascii_lower ascii_strip demo_schema
          (Some ''Todo'') (Some ''a, b'') (Some ''priority = high'')) =
     Inr (Some (JObj [(''property'', JStr ''priority''),
                      (''select'', JObj [(''equals'', JStr ''high'')])]))"
proof -
  have a: "CHR ''='' \<in> set ''priority = high''" by simp
  have b: "fst (get_status_property_name demo_schema) = Inr (Some ''Status'')"
    by (simp add: demo_schema_def demo_properties_def DatabaseSchema_init_def
          get_status_property_name_def properties_def)
  have c: "fst (get_tag_property_names demo_schema) = Inr [''Tags'']"
    by (simp add: demo_schema_def demo_properties_def DatabaseSchema_init_def
          get_tag_property_names_def properties_def)
  have d: "find_property_by_name ascii_lower demo_schema
        (ascii_strip (fst (split_first CHR ''='' ''priority = high''))) =
      Inr (JObj [(''type'', JStr ''select'')])"
    by (simp add: demo_schema_def demo_properties_def DatabaseSchema_init_def
          find_property_by_name_def properties_def split_first_def ascii_strip_def
          ascii_space_def ascii_lower_def)
  have e: "[(''type'', JStr ''select'')] \<noteq> []" by simp
  from generic_overrides [where strip = ascii_strip and lower = ascii_lower
      and status = "''Todo''" and tags = "''a, b''", OF a b c d e]
  show ?thesis
    by (simp add: leaf_def split_first_def ascii_strip_def ascii_space_def)
qed

end
